theory Spec2Isabelle
  imports Main "HOL-Library.Word"
begin

section \<open>Memory, faults and observable effects\<close>

text \<open>
  Addresses are natural numbers and \<open>0\<close> is the null pointer. Host memory holds three
  kinds of cells, each kind in a map of its own: reference counters (\<open>std::size_t\<close>,
  taken as 64 bits wide), the objects made by \<open>new T(args...)\<close>, and the tuples of saved
  constructor arguments. Device memory holds the device instances. An object is
  represented by the arguments it was built from. \<open>new\<close> hands out the address above
  the break of its memory space, so an address is never handed out twice.

  What C++ leaves undefined is a \<open>fault\<close> of the model: reading a freed counter,
  deleting what is not allocated, reading or calling a function pointer that was never
  initialised, leaving a value-returning function without a \<open>return\<close>.

  The \<open>trace\<close> records, in program order, the effects the properties below speak
  about: releases of memory, calls through the two callbacks, kernel launches and
  \<open>cudaDeviceSynchronize\<close>.
\<close>

type_synonym addr = nat

abbreviation nullptr :: addr where
  "nullptr \<equiv> 0"

datatype fault =
    UseAfterFree
  | InvalidDelete
  | IndeterminateValue
  | NullCall
  | NullDereference
  | MissingReturn

datatype kernel =
    make_on_device_kernel
  | make_on_device_from_factory_kernel
  | destroy_on_device_kernel
  | static_pointer_cast_on_device_kernel
  | const_pointer_cast_on_device_kernel
  | reinterpret_pointer_cast_on_device_kernel

datatype event =
    CounterFreed addr
  | HostDeleted addr
  | DeviceDeleted addr
  | CopierCalled addr
  | DeleterCalled addr
  | KernelLaunched kernel
  | DeviceSynchronized

record 'a heap =
  counters :: "addr \<rightharpoonup> 64 word"
  host_objs :: "addr \<rightharpoonup> 'a"
  payloads :: "addr \<rightharpoonup> 'a"
  device_objs :: "addr \<rightharpoonup> 'a"
  host_brk :: addr
  device_brk :: addr
  trace :: "event list"

definition empty_heap :: "'a heap" where
  "empty_heap = \<lparr>counters = Map.empty, host_objs = Map.empty, payloads = Map.empty,
     device_objs = Map.empty, host_brk = 0, device_brk = 0, trace = []\<rparr>"

definition bind_res :: "fault + 'b \<Rightarrow> ('b \<Rightarrow> fault + 'c) \<Rightarrow> fault + 'c" where
  "bind_res r f = (case r of Inl e \<Rightarrow> Inl e | Inr x \<Rightarrow> f x)"

text \<open>\<open>new std::size_t{1}\<close>\<close>

definition new_counter :: "'a heap \<Rightarrow> addr \<times> 'a heap" where
  "new_counter h =
     (let a = Suc (host_brk h)
      in (a, h\<lparr>counters := (counters h)(a \<mapsto> 1), host_brk := a\<rparr>))"

text \<open>\<open>new T(args...)\<close> on the host\<close>

definition new_host :: "'a \<Rightarrow> 'a heap \<Rightarrow> addr \<times> 'a heap" where
  "new_host args h =
     (let a = Suc (host_brk h)
      in (a, h\<lparr>host_objs := (host_objs h)(a \<mapsto> args), host_brk := a\<rparr>))"

text \<open>\<open>delete m_numReferences\<close> and \<open>delete m_cpu\<close>; deleting the null pointer does nothing.\<close>

definition delete_counter :: "addr \<Rightarrow> 'a heap \<Rightarrow> fault + 'a heap" where
  "delete_counter c h =
     (if c = nullptr then Inr h
      else case counters h c of
             None \<Rightarrow> Inl InvalidDelete
           | Some n \<Rightarrow> Inr (h\<lparr>counters := (counters h)(c := None),
                               trace := trace h @ [CounterFreed c]\<rparr>))"

definition delete_host :: "addr \<Rightarrow> 'a heap \<Rightarrow> fault + 'a heap" where
  "delete_host a h =
     (if a = nullptr then Inr h
      else case host_objs h a of
             None \<Rightarrow> Inl InvalidDelete
           | Some v \<Rightarrow> Inr (h\<lparr>host_objs := (host_objs h)(a := None),
                               trace := trace h @ [HostDeleted a]\<rparr>))"

text \<open>\<open>*p\<close> yields a reference: the address referred to and the object found there.
  Dereferencing the null pointer or a pointer to no live object is undefined.\<close>

definition deref :: "(addr \<rightharpoonup> 'a) \<Rightarrow> addr \<Rightarrow> fault + (addr \<times> 'a)" where
  "deref mem a =
     (if a = nullptr then Inl NullDereference
      else case mem a of None \<Rightarrow> Inl UseAfterFree | Some v \<Rightarrow> Inr (a, v))"

section \<open>\<open>managed_ptr<T, ExecutionStrategy::Host>\<close>\<close>

record host_ptr =
  m_cpu :: addr
  m_numReferences :: addr

text \<open>The default constructor and the constructor from \<open>nullptr\<close>: both members keep
  their default member initialiser.\<close>

definition Host_managed_ptr :: host_ptr where
  "Host_managed_ptr = \<lparr>host_ptr.m_cpu = nullptr, host_ptr.m_numReferences = nullptr\<rparr>"

definition Host_managed_ptr_nullptr :: host_ptr where
  "Host_managed_ptr_nullptr = \<lparr>host_ptr.m_cpu = nullptr, host_ptr.m_numReferences = nullptr\<rparr>"

text \<open>\<open>explicit managed_ptr(U* hostPtr)\<close>\<close>

definition Host_managed_ptr_raw :: "addr \<Rightarrow> 'a heap \<Rightarrow> host_ptr \<times> 'a heap" where
  "Host_managed_ptr_raw hostPtr h =
     (let (c, h') = new_counter h
      in (\<lparr>host_ptr.m_cpu = hostPtr, host_ptr.m_numReferences = c\<rparr>, h'))"

definition Host_incrementReferenceCount :: "host_ptr \<Rightarrow> 'a heap \<Rightarrow> fault + 'a heap" where
  "Host_incrementReferenceCount p h =
     (if host_ptr.m_numReferences p \<noteq> nullptr then
        (case counters h (host_ptr.m_numReferences p) of
           None \<Rightarrow> Inl UseAfterFree
         | Some n \<Rightarrow> Inr (h\<lparr>counters := (counters h)(host_ptr.m_numReferences p \<mapsto> n + 1)\<rparr>))
      else Inr h)"

definition Host_decrementReferenceCount :: "host_ptr \<Rightarrow> 'a heap \<Rightarrow> fault + 'a heap" where
  "Host_decrementReferenceCount p h =
     (if host_ptr.m_numReferences p \<noteq> nullptr then
        (case counters h (host_ptr.m_numReferences p) of
           None \<Rightarrow> Inl UseAfterFree
         | Some n \<Rightarrow>
             (let h1 = h\<lparr>counters := (counters h)(host_ptr.m_numReferences p \<mapsto> n - 1)\<rparr>
              in if n - 1 = 0 then
                   bind_res (delete_counter (host_ptr.m_numReferences p) h1)
                     (delete_host (host_ptr.m_cpu p))
                 else Inr h1))
      else Inr h)"

text \<open>Copy constructor, converting constructor and aliasing constructor. The converting
  constructor differs from the copy constructor in the static type of \<open>other\<close> only; the
  implicit conversion from \<open>U*\<close> to \<open>T*\<close> is taken to keep the address.\<close>

definition Host_copy_ctor :: "host_ptr \<Rightarrow> 'a heap \<Rightarrow> fault + (host_ptr \<times> 'a heap)" where
  "Host_copy_ctor other h =
     (let this = \<lparr>host_ptr.m_cpu = host_ptr.m_cpu other,
                  host_ptr.m_numReferences = host_ptr.m_numReferences other\<rparr>
      in bind_res (Host_incrementReferenceCount this h) (\<lambda>h'. Inr (this, h')))"

definition Host_converting_ctor :: "host_ptr \<Rightarrow> 'a heap \<Rightarrow> fault + (host_ptr \<times> 'a heap)" where
  "Host_converting_ctor other h =
     (let this = \<lparr>host_ptr.m_cpu = host_ptr.m_cpu other,
                  host_ptr.m_numReferences = host_ptr.m_numReferences other\<rparr>
      in bind_res (Host_incrementReferenceCount this h) (\<lambda>h'. Inr (this, h')))"

definition Host_aliasing_ctor ::
  "host_ptr \<Rightarrow> addr \<Rightarrow> 'a heap \<Rightarrow> fault + (host_ptr \<times> 'a heap)" where
  "Host_aliasing_ctor other hostPtr h =
     (let this = \<lparr>host_ptr.m_cpu = hostPtr,
                  host_ptr.m_numReferences = host_ptr.m_numReferences other\<rparr>
      in bind_res (Host_incrementReferenceCount this h) (\<lambda>h'. Inr (this, h')))"


text \<open>Copy assignment. \<open>same_object\<close> is the truth value of \<open>this == &other\<close>, a
  comparison of the addresses of the two \<open>managed_ptr\<close> objects, not of what they hold.
  The converting assignment has no such test.\<close>

definition Host_assign ::
  "bool \<Rightarrow> host_ptr \<Rightarrow> host_ptr \<Rightarrow> 'a heap \<Rightarrow> fault + (host_ptr \<times> 'a heap)" where
  "Host_assign same_object this other h =
     (if \<not> same_object then
        bind_res (Host_decrementReferenceCount this h) (\<lambda>h1.
          let this' = this\<lparr>host_ptr.m_cpu := host_ptr.m_cpu other,
                           host_ptr.m_numReferences := host_ptr.m_numReferences other\<rparr>
          in bind_res (Host_incrementReferenceCount this' h1) (\<lambda>h2. Inr (this', h2)))
      else Inr (this, h))"

definition Host_converting_assign ::
  "host_ptr \<Rightarrow> host_ptr \<Rightarrow> 'a heap \<Rightarrow> fault + (host_ptr \<times> 'a heap)" where
  "Host_converting_assign this other h =
     bind_res (Host_decrementReferenceCount this h) (\<lambda>h1.
       let this' = this\<lparr>host_ptr.m_cpu := host_ptr.m_cpu other,
                        host_ptr.m_numReferences := host_ptr.m_numReferences other\<rparr>
       in bind_res (Host_incrementReferenceCount this' h1) (\<lambda>h2. Inr (this', h2)))"

definition Host_get :: "host_ptr \<Rightarrow> addr" where
  "Host_get p = host_ptr.m_cpu p"

definition Host_arrow :: "host_ptr \<Rightarrow> addr" where
  "Host_arrow p = host_ptr.m_cpu p"

definition Host_star :: "host_ptr \<Rightarrow> 'a heap \<Rightarrow> fault + (addr \<times> 'a)" where
  "Host_star p h = deref (host_objs h) (host_ptr.m_cpu p)"

definition Host_use_count :: "host_ptr \<Rightarrow> 'a heap \<Rightarrow> fault + 64 word" where
  "Host_use_count p h =
     (if host_ptr.m_numReferences p \<noteq> nullptr then
        (case counters h (host_ptr.m_numReferences p) of
           None \<Rightarrow> Inl UseAfterFree
         | Some n \<Rightarrow> Inr n)
      else Inr 0)"

definition Host_operator_bool :: "host_ptr \<Rightarrow> bool" where
  "Host_operator_bool p = (host_ptr.m_cpu p \<noteq> nullptr)"

definition Host_operator_T_ptr :: "host_ptr \<Rightarrow> addr" where
  "Host_operator_T_ptr p = Host_get p"

definition Host_registerArguments :: "'a \<Rightarrow> host_ptr \<Rightarrow> 'a heap \<Rightarrow> host_ptr \<times> 'a heap" where
  "Host_registerArguments args p h = (p, h)"

text \<open>\<open>make_managed<T>(ExecutionStrategy::Host&&, args...)\<close>, in a build without CUDA,
  where the \<open>managed_ptr<T>\<close> it returns is the Host specialisation; the returned
  temporary is the result object itself (no copy is made of it).\<close>

definition Host_make_managed :: "'a \<Rightarrow> 'a heap \<Rightarrow> host_ptr \<times> 'a heap" where
  "Host_make_managed args h =
     (let (hostPtr, h1) = new_host args h
      in Host_managed_ptr_raw hostPtr h1)"

text \<open>\<open>make_managed_from_factory\<close>: the factory \<open>f\<close> is user code that may allocate and
  returns a pointer, possibly null.\<close>

definition Host_make_managed_from_factory ::
  "('a \<Rightarrow> 'a heap \<Rightarrow> addr \<times> 'a heap) \<Rightarrow> 'a \<Rightarrow> 'a heap \<Rightarrow> host_ptr \<times> 'a heap" where
  "Host_make_managed_from_factory f args h =
     (let (hostPtr, h1) = f args h
      in Host_managed_ptr_raw hostPtr h1)"

text \<open>The casts. \<open>cast\<close> stands for the language's \<open>static_cast<T*>\<close>,
  \<open>const_cast<T*>\<close>, \<open>reinterpret_cast<T*>\<close> or \<open>dynamic_cast<T*>\<close> on addresses; a
  failed \<open>dynamic_cast\<close> yields the null pointer.\<close>

definition Host_static_pointer_cast ::
  "(addr \<Rightarrow> addr) \<Rightarrow> host_ptr \<Rightarrow> 'a heap \<Rightarrow> fault + (host_ptr \<times> 'a heap)" where
  "Host_static_pointer_cast cast other h =
     (let hostPtr = cast (Host_get other)
      in Host_aliasing_ctor other hostPtr h)"

definition Host_dynamic_pointer_cast ::
  "(addr \<Rightarrow> addr) \<Rightarrow> host_ptr \<Rightarrow> 'a heap \<Rightarrow> fault + (host_ptr \<times> 'a heap)" where
  "Host_dynamic_pointer_cast cast other h =
     (let hostPtr = cast (Host_get other)
      in if hostPtr \<noteq> nullptr then Host_aliasing_ctor other hostPtr h
         else Inr (Host_managed_ptr, h))"

definition Host_const_pointer_cast ::
  "(addr \<Rightarrow> addr) \<Rightarrow> host_ptr \<Rightarrow> 'a heap \<Rightarrow> fault + (host_ptr \<times> 'a heap)" where
  "Host_const_pointer_cast cast other h =
     (let hostPtr = cast (Host_get other)
      in Host_aliasing_ctor other hostPtr h)"

definition Host_reinterpret_pointer_cast ::
  "(addr \<Rightarrow> addr) \<Rightarrow> host_ptr \<Rightarrow> 'a heap \<Rightarrow> fault + (host_ptr \<times> 'a heap)" where
  "Host_reinterpret_pointer_cast cast other h =
     (let hostPtr = cast (Host_get other)
      in Host_aliasing_ctor other hostPtr h)"


section \<open>Accelerator tasks\<close>

text \<open>Code runs either on the host or on the device: \<open>DeviceContext\<close> is code compiled
  with \<open>__CUDA_ARCH__\<close> defined. A kernel launched with \<open><<<1, 1>>>\<close> runs its body on
  one device thread; the host does nothing between the launch and
  \<open>cudaDeviceSynchronize\<close>, so the body's effect is applied at the launch.\<close>

datatype exec_context = HostContext | DeviceContext

definition cudaDeviceSynchronize :: "'a heap \<Rightarrow> 'a heap" where
  "cudaDeviceSynchronize h = h\<lparr>trace := trace h @ [DeviceSynchronized]\<rparr>"

definition launch :: "kernel \<Rightarrow> ('a heap \<Rightarrow> fault + 'b) \<Rightarrow> 'a heap \<Rightarrow> fault + 'b" where
  "launch k body h = body (h\<lparr>trace := trace h @ [KernelLaunched k]\<rparr>)"

text \<open>The kernel \<open>destroy_on_device\<close>: \<open>if (devicePtr) { delete devicePtr; }\<close>\<close>

definition destroy_on_device_body :: "addr \<Rightarrow> 'a heap \<Rightarrow> fault + 'a heap" where
  "destroy_on_device_body devicePtr h =
     (if devicePtr \<noteq> nullptr then
        (case device_objs h devicePtr of
           None \<Rightarrow> Inl InvalidDelete
         | Some v \<Rightarrow> Inr (h\<lparr>device_objs := (device_objs h)(devicePtr := None),
                             trace := trace h @ [DeviceDeleted devicePtr]\<rparr>))
      else Inr h)"

text \<open>The kernel \<open>make_on_device\<close>: \<open>devicePtr = new T(args...)\<close>, and its host wrapper.\<close>

definition make_on_device_body :: "'a \<Rightarrow> 'a heap \<Rightarrow> fault + (addr \<times> 'a heap)" where
  "make_on_device_body args h =
     (let a = Suc (device_brk h)
      in Inr (a, h\<lparr>device_objs := (device_objs h)(a \<mapsto> args), device_brk := a\<rparr>))"

definition make_on_device :: "'a \<Rightarrow> 'a heap \<Rightarrow> fault + (addr \<times> 'a heap)" where
  "make_on_device args h =
     bind_res (launch make_on_device_kernel (make_on_device_body args) h)
       (\<lambda>(devicePtr, h1). Inr (devicePtr, cudaDeviceSynchronize h1))"

text \<open>\<open>make_on_device_from_factory\<close>: \<open>f\<close> is the user's factory as it runs on the device.\<close>

definition make_on_device_from_factory ::
  "('a \<Rightarrow> 'a heap \<Rightarrow> addr \<times> 'a heap) \<Rightarrow> 'a \<Rightarrow> 'a heap \<Rightarrow> fault + (addr \<times> 'a heap)" where
  "make_on_device_from_factory f args h =
     bind_res (launch make_on_device_from_factory_kernel (\<lambda>h0. Inr (f args h0)) h)
       (\<lambda>(devicePtr, h1). Inr (devicePtr, cudaDeviceSynchronize h1))"

section \<open>\<open>managed_ptr<T, ExecutionStrategy::Managed>\<close>\<close>

text \<open>The two callbacks are plain function pointers. \<open>registerArguments\<close> stores the two
  lambdas \<open>TupleCopier\<close> and \<open>TupleDeleter\<close>; before that the members \<open>m_copier\<close> and
  \<open>m_deleter\<close> have no initialiser, so their value is \<open>Indeterminate\<close>. \<open>NullFn\<close> is the
  null function pointer, which \<open>if (m_deleter)\<close> tests for.\<close>

datatype fn_ptr = Indeterminate | NullFn | TupleCopier | TupleDeleter

record managed_ptr =
  m_cpu :: addr
  m_gpu :: addr
  m_numReferences :: addr
  m_copyArguments :: addr
  m_copier :: fn_ptr
  m_deleter :: fn_ptr

text \<open>A call \<open>f(copyArguments)\<close> through a function pointer. The copier copy-constructs a
  temporary tuple from the saved one, which runs the copy constructor of every saved
  argument, and drops it; the deleter deletes the saved tuple.\<close>

fun call_fn :: "fn_ptr \<Rightarrow> addr \<Rightarrow> 'a heap \<Rightarrow> fault + 'a heap" where
  "call_fn Indeterminate copyArguments h = Inl IndeterminateValue"
| "call_fn NullFn copyArguments h = Inl NullCall"
| "call_fn TupleCopier copyArguments h =
     (if copyArguments = nullptr then Inl NullDereference
      else case payloads h copyArguments of
             None \<Rightarrow> Inl UseAfterFree
           | Some v \<Rightarrow> Inr (h\<lparr>trace := trace h @ [CopierCalled copyArguments]\<rparr>))"
| "call_fn TupleDeleter copyArguments h =
     (if copyArguments = nullptr then Inr (h\<lparr>trace := trace h @ [DeleterCalled copyArguments]\<rparr>)
      else case payloads h copyArguments of
             None \<Rightarrow> Inl InvalidDelete
           | Some v \<Rightarrow> Inr (h\<lparr>payloads := (payloads h)(copyArguments := None),
                               trace := trace h @ [DeleterCalled copyArguments]\<rparr>))"

definition Managed_managed_ptr :: managed_ptr where
  "Managed_managed_ptr =
     \<lparr>managed_ptr.m_cpu = nullptr, managed_ptr.m_gpu = nullptr,
      managed_ptr.m_numReferences = nullptr, managed_ptr.m_copyArguments = nullptr,
      managed_ptr.m_copier = Indeterminate, managed_ptr.m_deleter = Indeterminate\<rparr>"

definition Managed_managed_ptr_nullptr :: managed_ptr where
  "Managed_managed_ptr_nullptr =
     \<lparr>managed_ptr.m_cpu = nullptr, managed_ptr.m_gpu = nullptr,
      managed_ptr.m_numReferences = nullptr, managed_ptr.m_copyArguments = nullptr,
      managed_ptr.m_copier = Indeterminate, managed_ptr.m_deleter = Indeterminate\<rparr>"

text \<open>\<open>managed_ptr(U* hostPtr, V* devicePtr)\<close>\<close>

definition Managed_managed_ptr_raw ::
  "addr \<Rightarrow> addr \<Rightarrow> 'a heap \<Rightarrow> managed_ptr \<times> 'a heap" where
  "Managed_managed_ptr_raw hostPtr devicePtr h =
     (let (c, h') = new_counter h
      in (\<lparr>managed_ptr.m_cpu = hostPtr, managed_ptr.m_gpu = devicePtr,
           managed_ptr.m_numReferences = c, managed_ptr.m_copyArguments = nullptr,
           managed_ptr.m_copier = Indeterminate, managed_ptr.m_deleter = Indeterminate\<rparr>, h'))"

definition Managed_incrementReferenceCount :: "managed_ptr \<Rightarrow> 'a heap \<Rightarrow> fault + 'a heap" where
  "Managed_incrementReferenceCount p h =
     (if managed_ptr.m_numReferences p \<noteq> nullptr then
        (case counters h (managed_ptr.m_numReferences p) of
           None \<Rightarrow> Inl UseAfterFree
         | Some n \<Rightarrow>
             (let h1 = h\<lparr>counters := (counters h)(managed_ptr.m_numReferences p \<mapsto> n + 1)\<rparr>
              in call_fn (managed_ptr.m_copier p) (managed_ptr.m_copyArguments p) h1))
      else Inr h)"

definition Managed_decrementReferenceCount :: "managed_ptr \<Rightarrow> 'a heap \<Rightarrow> fault + 'a heap" where
  "Managed_decrementReferenceCount p h =
     (if managed_ptr.m_numReferences p \<noteq> nullptr then
        (case counters h (managed_ptr.m_numReferences p) of
           None \<Rightarrow> Inl UseAfterFree
         | Some n \<Rightarrow>
             (let h1 = h\<lparr>counters := (counters h)(managed_ptr.m_numReferences p \<mapsto> n - 1)\<rparr>
              in if n - 1 = 0 then
                   bind_res (delete_counter (managed_ptr.m_numReferences p) h1) (\<lambda>h2.
                   bind_res (case managed_ptr.m_deleter p of
                               Indeterminate \<Rightarrow> Inl IndeterminateValue
                             | NullFn \<Rightarrow> Inr h2
                             | f \<Rightarrow> call_fn f (managed_ptr.m_copyArguments p) h2) (\<lambda>h3.
                   bind_res (delete_host (managed_ptr.m_cpu p) h3) (\<lambda>h4.
                   bind_res (launch destroy_on_device_kernel
                               (destroy_on_device_body (managed_ptr.m_gpu p)) h4) (\<lambda>h5.
                   Inr (cudaDeviceSynchronize h5)))))
                 else Inr h1))
      else Inr h)"

definition Managed_copy_ctor ::
  "exec_context \<Rightarrow> managed_ptr \<Rightarrow> 'a heap \<Rightarrow> fault + (managed_ptr \<times> 'a heap)" where
  "Managed_copy_ctor ctx other h =
     (let this = \<lparr>managed_ptr.m_cpu = managed_ptr.m_cpu other,
                  managed_ptr.m_gpu = managed_ptr.m_gpu other,
                  managed_ptr.m_numReferences = managed_ptr.m_numReferences other,
                  managed_ptr.m_copyArguments = managed_ptr.m_copyArguments other,
                  managed_ptr.m_copier = managed_ptr.m_copier other,
                  managed_ptr.m_deleter = managed_ptr.m_deleter other\<rparr>
      in case ctx of
           HostContext \<Rightarrow>
             bind_res (Managed_incrementReferenceCount this h) (\<lambda>h'. Inr (this, h'))
         | DeviceContext \<Rightarrow> Inr (this, h))"

definition Managed_converting_ctor ::
  "exec_context \<Rightarrow> managed_ptr \<Rightarrow> 'a heap \<Rightarrow> fault + (managed_ptr \<times> 'a heap)" where
  "Managed_converting_ctor ctx other h =
     (let this = \<lparr>managed_ptr.m_cpu = managed_ptr.m_cpu other,
                  managed_ptr.m_gpu = managed_ptr.m_gpu other,
                  managed_ptr.m_numReferences = managed_ptr.m_numReferences other,
                  managed_ptr.m_copyArguments = managed_ptr.m_copyArguments other,
                  managed_ptr.m_copier = managed_ptr.m_copier other,
                  managed_ptr.m_deleter = managed_ptr.m_deleter other\<rparr>
      in case ctx of
           HostContext \<Rightarrow>
             bind_res (Managed_incrementReferenceCount this h) (\<lambda>h'. Inr (this, h'))
         | DeviceContext \<Rightarrow> Inr (this, h))"

definition Managed_aliasing_ctor ::
  "exec_context \<Rightarrow> managed_ptr \<Rightarrow> addr \<Rightarrow> addr \<Rightarrow> 'a heap \<Rightarrow> fault + (managed_ptr \<times> 'a heap)" where
  "Managed_aliasing_ctor ctx other hostPtr devicePtr h =
     (let this = \<lparr>managed_ptr.m_cpu = hostPtr,
                  managed_ptr.m_gpu = devicePtr,
                  managed_ptr.m_numReferences = managed_ptr.m_numReferences other,
                  managed_ptr.m_copyArguments = managed_ptr.m_copyArguments other,
                  managed_ptr.m_copier = managed_ptr.m_copier other,
                  managed_ptr.m_deleter = managed_ptr.m_deleter other\<rparr>
      in case ctx of
           HostContext \<Rightarrow>
             bind_res (Managed_incrementReferenceCount this h) (\<lambda>h'. Inr (this, h'))
         | DeviceContext \<Rightarrow> Inr (this, h))"

definition Managed_dtor :: "exec_context \<Rightarrow> managed_ptr \<Rightarrow> 'a heap \<Rightarrow> fault + 'a heap" where
  "Managed_dtor ctx this h =
     (case ctx of
        HostContext \<Rightarrow> Managed_decrementReferenceCount this h
      | DeviceContext \<Rightarrow> Inr h)"

definition Managed_assign ::
  "exec_context \<Rightarrow> bool \<Rightarrow> managed_ptr \<Rightarrow> managed_ptr \<Rightarrow> 'a heap
     \<Rightarrow> fault + (managed_ptr \<times> 'a heap)" where
  "Managed_assign ctx same_object this other h =
     (if \<not> same_object then
        bind_res (case ctx of HostContext \<Rightarrow> Managed_decrementReferenceCount this h
                            | DeviceContext \<Rightarrow> Inr h) (\<lambda>h1.
          let this' = this\<lparr>managed_ptr.m_cpu := managed_ptr.m_cpu other,
                           managed_ptr.m_numReferences := managed_ptr.m_numReferences other,
                           managed_ptr.m_gpu := managed_ptr.m_gpu other,
                           managed_ptr.m_copyArguments := managed_ptr.m_copyArguments other,
                           managed_ptr.m_copier := managed_ptr.m_copier other,
                           managed_ptr.m_deleter := managed_ptr.m_deleter other\<rparr>
          in case ctx of
               HostContext \<Rightarrow>
                 bind_res (Managed_incrementReferenceCount this' h1) (\<lambda>h2. Inr (this', h2))
             | DeviceContext \<Rightarrow> Inr (this', h1))
      else Inr (this, h))"

definition Managed_converting_assign ::
  "exec_context \<Rightarrow> managed_ptr \<Rightarrow> managed_ptr \<Rightarrow> 'a heap \<Rightarrow> fault + (managed_ptr \<times> 'a heap)" where
  "Managed_converting_assign ctx this other h =
     bind_res (case ctx of HostContext \<Rightarrow> Managed_decrementReferenceCount this h
                         | DeviceContext \<Rightarrow> Inr h) (\<lambda>h1.
       let this' = this\<lparr>managed_ptr.m_cpu := managed_ptr.m_cpu other,
                        managed_ptr.m_numReferences := managed_ptr.m_numReferences other,
                        managed_ptr.m_gpu := managed_ptr.m_gpu other,
                        managed_ptr.m_copyArguments := managed_ptr.m_copyArguments other,
                        managed_ptr.m_copier := managed_ptr.m_copier other,
                        managed_ptr.m_deleter := managed_ptr.m_deleter other\<rparr>
       in case ctx of
            HostContext \<Rightarrow>
              bind_res (Managed_incrementReferenceCount this' h1) (\<lambda>h2. Inr (this', h2))
          | DeviceContext \<Rightarrow> Inr (this', h1))"

definition Managed_get :: "exec_context \<Rightarrow> managed_ptr \<Rightarrow> addr" where
  "Managed_get ctx p =
     (case ctx of HostContext \<Rightarrow> managed_ptr.m_cpu p | DeviceContext \<Rightarrow> managed_ptr.m_gpu p)"

definition Managed_arrow :: "exec_context \<Rightarrow> managed_ptr \<Rightarrow> addr" where
  "Managed_arrow ctx p =
     (case ctx of HostContext \<Rightarrow> managed_ptr.m_cpu p | DeviceContext \<Rightarrow> managed_ptr.m_gpu p)"

text \<open>\<open>operator*\<close> refers to the object in the memory of the executing context.\<close>

definition Managed_star :: "exec_context \<Rightarrow> managed_ptr \<Rightarrow> 'a heap \<Rightarrow> fault + (addr \<times> 'a)" where
  "Managed_star ctx p h =
     (case ctx of
        HostContext \<Rightarrow> deref (host_objs h) (managed_ptr.m_cpu p)
      | DeviceContext \<Rightarrow> deref (device_objs h) (managed_ptr.m_gpu p))"

definition Managed_use_count :: "managed_ptr \<Rightarrow> 'a heap \<Rightarrow> fault + 64 word" where
  "Managed_use_count p h =
     (if managed_ptr.m_numReferences p \<noteq> nullptr then
        (case counters h (managed_ptr.m_numReferences p) of
           None \<Rightarrow> Inl UseAfterFree
         | Some n \<Rightarrow> Inr n)
      else Inr 0)"

definition Managed_operator_bool :: "exec_context \<Rightarrow> managed_ptr \<Rightarrow> bool" where
  "Managed_operator_bool ctx p =
     (case ctx of
        HostContext \<Rightarrow> managed_ptr.m_cpu p \<noteq> nullptr
      | DeviceContext \<Rightarrow> managed_ptr.m_gpu p \<noteq> nullptr)"

definition Managed_operator_T_ptr ::
  "exec_context \<Rightarrow> managed_ptr \<Rightarrow> 'a heap \<Rightarrow> fault + (addr \<times> 'a heap)" where
  "Managed_operator_T_ptr ctx p h =
     bind_res (case ctx of
                 HostContext \<Rightarrow> call_fn (managed_ptr.m_copier p) (managed_ptr.m_copyArguments p) h
               | DeviceContext \<Rightarrow> Inr h)
       (\<lambda>h'. Inr (Managed_get ctx p, h'))"

text \<open>\<open>registerArguments\<close>: \<open>new std::tuple<Args...>(args...)\<close>, then the two lambdas.\<close>

definition Managed_registerArguments ::
  "'a \<Rightarrow> managed_ptr \<Rightarrow> 'a heap \<Rightarrow> managed_ptr \<times> 'a heap" where
  "Managed_registerArguments args p h =
     (let a = Suc (host_brk h);
          h' = h\<lparr>payloads := (payloads h)(a \<mapsto> args), host_brk := a\<rparr>
      in (p\<lparr>managed_ptr.m_copyArguments := a,
            managed_ptr.m_copier := TupleCopier,
            managed_ptr.m_deleter := TupleDeleter\<rparr>, h'))"

text \<open>\<open>make_managed<T>(ExecutionStrategy::Managed&&, args...)\<close>; \<open>result\<close> is returned
  as the result object itself (no copy is made of it).\<close>

definition Managed_make_managed :: "'a \<Rightarrow> 'a heap \<Rightarrow> fault + (managed_ptr \<times> 'a heap)" where
  "Managed_make_managed args h =
     (let (hostPtr, h1) = new_host args h
      in bind_res (make_on_device args h1) (\<lambda>(devicePtr, h2).
           let (result, h3) = Managed_managed_ptr_raw hostPtr devicePtr h2
           in Inr (Managed_registerArguments args result h3)))"

text \<open>\<open>make_managed_from_factory\<close>: \<open>f_host\<close> and \<open>f_device\<close> are the user's factory \<open>f\<close>
  as it runs on the host and on the device.\<close>

definition Managed_make_managed_from_factory ::
  "('a \<Rightarrow> 'a heap \<Rightarrow> addr \<times> 'a heap) \<Rightarrow> ('a \<Rightarrow> 'a heap \<Rightarrow> addr \<times> 'a heap) \<Rightarrow> 'a \<Rightarrow> 'a heap
     \<Rightarrow> fault + (managed_ptr \<times> 'a heap)" where
  "Managed_make_managed_from_factory f_host f_device args h =
     (let (hostPtr, h1) = f_host args h
      in bind_res (make_on_device_from_factory f_device args h1) (\<lambda>(devicePtr, h2).
           let (result, h3) = Managed_managed_ptr_raw hostPtr devicePtr h2
           in Inr (Managed_registerArguments args result h3)))"

text \<open>The casts on the device: a kernel evaluates \<open>cast(other.get())\<close> in device context,
  where \<open>get\<close> yields \<open>m_gpu\<close>, and the host waits for it.\<close>

definition static_pointer_cast_on_device ::
  "(addr \<Rightarrow> addr) \<Rightarrow> addr \<Rightarrow> 'a heap \<Rightarrow> fault + (addr \<times> 'a heap)" where
  "static_pointer_cast_on_device cast other_get h =
     bind_res (launch static_pointer_cast_on_device_kernel (\<lambda>h0. Inr (cast other_get, h0)) h)
       (\<lambda>(devicePtr, h1). Inr (devicePtr, cudaDeviceSynchronize h1))"

definition const_pointer_cast_on_device ::
  "(addr \<Rightarrow> addr) \<Rightarrow> addr \<Rightarrow> 'a heap \<Rightarrow> fault + (addr \<times> 'a heap)" where
  "const_pointer_cast_on_device cast other_get h =
     bind_res (launch const_pointer_cast_on_device_kernel (\<lambda>h0. Inr (cast other_get, h0)) h)
       (\<lambda>(devicePtr, h1). Inr (devicePtr, cudaDeviceSynchronize h1))"

definition reinterpret_pointer_cast_on_device ::
  "(addr \<Rightarrow> addr) \<Rightarrow> addr \<Rightarrow> 'a heap \<Rightarrow> fault + (addr \<times> 'a heap)" where
  "reinterpret_pointer_cast_on_device cast other_get h =
     bind_res (launch reinterpret_pointer_cast_on_device_kernel (\<lambda>h0. Inr (cast other_get, h0)) h)
       (\<lambda>(devicePtr, h1). Inr (devicePtr, cudaDeviceSynchronize h1))"

definition Managed_static_pointer_cast ::
  "(addr \<Rightarrow> addr) \<Rightarrow> managed_ptr \<Rightarrow> 'a heap \<Rightarrow> fault + (managed_ptr \<times> 'a heap)" where
  "Managed_static_pointer_cast cast other h =
     (let hostPtr = cast (Managed_get HostContext other)
      in bind_res (static_pointer_cast_on_device cast (Managed_get DeviceContext other) h)
           (\<lambda>(devicePtr, h1). Managed_aliasing_ctor HostContext other hostPtr devicePtr h1))"

definition Managed_const_pointer_cast ::
  "(addr \<Rightarrow> addr) \<Rightarrow> managed_ptr \<Rightarrow> 'a heap \<Rightarrow> fault + (managed_ptr \<times> 'a heap)" where
  "Managed_const_pointer_cast cast other h =
     (let hostPtr = cast (Managed_get HostContext other)
      in bind_res (const_pointer_cast_on_device cast (Managed_get DeviceContext other) h)
           (\<lambda>(devicePtr, h1). Managed_aliasing_ctor HostContext other hostPtr devicePtr h1))"

definition Managed_reinterpret_pointer_cast ::
  "(addr \<Rightarrow> addr) \<Rightarrow> managed_ptr \<Rightarrow> 'a heap \<Rightarrow> fault + (managed_ptr \<times> 'a heap)" where
  "Managed_reinterpret_pointer_cast cast other h =
     (let hostPtr = cast (Managed_get HostContext other)
      in bind_res (reinterpret_pointer_cast_on_device cast (Managed_get DeviceContext other) h)
           (\<lambda>(devicePtr, h1). Managed_aliasing_ctor HostContext other hostPtr devicePtr h1))"

text \<open>\<open>dynamic_pointer_cast\<close> for the Managed strategy has the body
  \<open>static_assert(true, "CUDA does not support dynamic_cast");\<close> and nothing else, so a
  call runs off the end of a function that must return a \<open>managed_ptr\<close>.\<close>

definition Managed_dynamic_pointer_cast ::
  "managed_ptr \<Rightarrow> 'a heap \<Rightarrow> fault + (managed_ptr \<times> 'a heap)" where
  "Managed_dynamic_pointer_cast other h = Inl MissingReturn"

section \<open>\<open>managed_ptr<T, ExecutionStrategy::Device>\<close>\<close>

record device_ptr =
  m_gpu :: addr
  m_numReferences :: addr

definition Device_managed_ptr :: device_ptr where
  "Device_managed_ptr = \<lparr>device_ptr.m_gpu = nullptr, device_ptr.m_numReferences = nullptr\<rparr>"

definition Device_managed_ptr_nullptr :: device_ptr where
  "Device_managed_ptr_nullptr = \<lparr>device_ptr.m_gpu = nullptr, device_ptr.m_numReferences = nullptr\<rparr>"

definition Device_managed_ptr_raw :: "addr \<Rightarrow> 'a heap \<Rightarrow> device_ptr \<times> 'a heap" where
  "Device_managed_ptr_raw devicePtr h =
     (let (c, h') = new_counter h
      in (\<lparr>device_ptr.m_gpu = devicePtr, device_ptr.m_numReferences = c\<rparr>, h'))"

definition Device_incrementReferenceCount :: "device_ptr \<Rightarrow> 'a heap \<Rightarrow> fault + 'a heap" where
  "Device_incrementReferenceCount p h =
     (if device_ptr.m_numReferences p \<noteq> nullptr then
        (case counters h (device_ptr.m_numReferences p) of
           None \<Rightarrow> Inl UseAfterFree
         | Some n \<Rightarrow> Inr (h\<lparr>counters := (counters h)(device_ptr.m_numReferences p \<mapsto> n + 1)\<rparr>))
      else Inr h)"

definition Device_decrementReferenceCount :: "device_ptr \<Rightarrow> 'a heap \<Rightarrow> fault + 'a heap" where
  "Device_decrementReferenceCount p h =
     (if device_ptr.m_numReferences p \<noteq> nullptr then
        (case counters h (device_ptr.m_numReferences p) of
           None \<Rightarrow> Inl UseAfterFree
         | Some n \<Rightarrow>
             (let h1 = h\<lparr>counters := (counters h)(device_ptr.m_numReferences p \<mapsto> n - 1)\<rparr>
              in if n - 1 = 0 then
                   bind_res (delete_counter (device_ptr.m_numReferences p) h1) (\<lambda>h2.
                   bind_res (launch destroy_on_device_kernel
                               (destroy_on_device_body (device_ptr.m_gpu p)) h2) (\<lambda>h3.
                   Inr (cudaDeviceSynchronize h3)))
                 else Inr h1))
      else Inr h)"

definition Device_copy_ctor ::
  "exec_context \<Rightarrow> device_ptr \<Rightarrow> 'a heap \<Rightarrow> fault + (device_ptr \<times> 'a heap)" where
  "Device_copy_ctor ctx other h =
     (let this = \<lparr>device_ptr.m_gpu = device_ptr.m_gpu other,
                  device_ptr.m_numReferences = device_ptr.m_numReferences other\<rparr>
      in case ctx of
           HostContext \<Rightarrow>
             bind_res (Device_incrementReferenceCount this h) (\<lambda>h'. Inr (this, h'))
         | DeviceContext \<Rightarrow> Inr (this, h))"

definition Device_converting_ctor ::
  "exec_context \<Rightarrow> device_ptr \<Rightarrow> 'a heap \<Rightarrow> fault + (device_ptr \<times> 'a heap)" where
  "Device_converting_ctor ctx other h =
     (let this = \<lparr>device_ptr.m_gpu = device_ptr.m_gpu other,
                  device_ptr.m_numReferences = device_ptr.m_numReferences other\<rparr>
      in case ctx of
           HostContext \<Rightarrow>
             bind_res (Device_incrementReferenceCount this h) (\<lambda>h'. Inr (this, h'))
         | DeviceContext \<Rightarrow> Inr (this, h))"

definition Device_aliasing_ctor ::
  "exec_context \<Rightarrow> device_ptr \<Rightarrow> addr \<Rightarrow> 'a heap \<Rightarrow> fault + (device_ptr \<times> 'a heap)" where
  "Device_aliasing_ctor ctx other devicePtr h =
     (let this = \<lparr>device_ptr.m_gpu = devicePtr,
                  device_ptr.m_numReferences = device_ptr.m_numReferences other\<rparr>
      in case ctx of
           HostContext \<Rightarrow>
             bind_res (Device_incrementReferenceCount this h) (\<lambda>h'. Inr (this, h'))
         | DeviceContext \<Rightarrow> Inr (this, h))"

definition Device_dtor :: "exec_context \<Rightarrow> device_ptr \<Rightarrow> 'a heap \<Rightarrow> fault + 'a heap" where
  "Device_dtor ctx this h =
     (case ctx of
        HostContext \<Rightarrow> Device_decrementReferenceCount this h
      | DeviceContext \<Rightarrow> Inr h)"

definition Device_assign ::
  "exec_context \<Rightarrow> bool \<Rightarrow> device_ptr \<Rightarrow> device_ptr \<Rightarrow> 'a heap
     \<Rightarrow> fault + (device_ptr \<times> 'a heap)" where
  "Device_assign ctx same_object this other h =
     (if \<not> same_object then
        bind_res (case ctx of HostContext \<Rightarrow> Device_decrementReferenceCount this h
                            | DeviceContext \<Rightarrow> Inr h) (\<lambda>h1.
          let this' = this\<lparr>device_ptr.m_gpu := device_ptr.m_gpu other,
                           device_ptr.m_numReferences := device_ptr.m_numReferences other\<rparr>
          in case ctx of
               HostContext \<Rightarrow>
                 bind_res (Device_incrementReferenceCount this' h1) (\<lambda>h2. Inr (this', h2))
             | DeviceContext \<Rightarrow> Inr (this', h1))
      else Inr (this, h))"

definition Device_converting_assign ::
  "exec_context \<Rightarrow> device_ptr \<Rightarrow> device_ptr \<Rightarrow> 'a heap \<Rightarrow> fault + (device_ptr \<times> 'a heap)" where
  "Device_converting_assign ctx this other h =
     bind_res (case ctx of HostContext \<Rightarrow> Device_decrementReferenceCount this h
                         | DeviceContext \<Rightarrow> Inr h) (\<lambda>h1.
       let this' = this\<lparr>device_ptr.m_gpu := device_ptr.m_gpu other,
                        device_ptr.m_numReferences := device_ptr.m_numReferences other\<rparr>
       in case ctx of
            HostContext \<Rightarrow>
              bind_res (Device_incrementReferenceCount this' h1) (\<lambda>h2. Inr (this', h2))
          | DeviceContext \<Rightarrow> Inr (this', h1))"

text \<open>\<open>get\<close>, \<open>operator->\<close>, \<open>operator*\<close>, \<open>operator bool\<close> and \<open>operator T*\<close> are
  device-only functions.\<close>

definition Device_get :: "device_ptr \<Rightarrow> addr" where
  "Device_get p = device_ptr.m_gpu p"

definition Device_arrow :: "device_ptr \<Rightarrow> addr" where
  "Device_arrow p = device_ptr.m_gpu p"

definition Device_star :: "device_ptr \<Rightarrow> 'a heap \<Rightarrow> fault + (addr \<times> 'a)" where
  "Device_star p h = deref (device_objs h) (device_ptr.m_gpu p)"

definition Device_use_count :: "device_ptr \<Rightarrow> 'a heap \<Rightarrow> fault + 64 word" where
  "Device_use_count p h =
     (if device_ptr.m_numReferences p \<noteq> nullptr then
        (case counters h (device_ptr.m_numReferences p) of
           None \<Rightarrow> Inl UseAfterFree
         | Some n \<Rightarrow> Inr n)
      else Inr 0)"

definition Device_operator_bool :: "device_ptr \<Rightarrow> bool" where
  "Device_operator_bool p = (device_ptr.m_gpu p \<noteq> nullptr)"

definition Device_operator_T_ptr :: "device_ptr \<Rightarrow> addr" where
  "Device_operator_T_ptr p = Device_get p"

definition Device_registerArguments ::
  "'a \<Rightarrow> device_ptr \<Rightarrow> 'a heap \<Rightarrow> device_ptr \<times> 'a heap" where
  "Device_registerArguments args p h = (p, h)"

text \<open>The overloads of \<open>make_managed\<close> and \<open>make_managed_from_factory\<close> that take
  \<open>ExecutionStrategy::Device&&\<close> are declared to return \<open>managed_ptr<T>\<close> and end in
  \<open>return managed_ptr<T>(devicePtr)\<close>. They exist only in a build with CUDA, where
  \<open>managed_ptr<T>\<close> is the Managed specialisation, and that specialisation has no
  constructor from a single pointer: the two templates have no instantiation that
  compiles, so there is no function to model. A Device pointer is built by the
  raw-pointer constructor above.\<close>

definition Device_static_pointer_cast ::
  "(addr \<Rightarrow> addr) \<Rightarrow> device_ptr \<Rightarrow> 'a heap \<Rightarrow> fault + (device_ptr \<times> 'a heap)" where
  "Device_static_pointer_cast cast other h =
     bind_res (static_pointer_cast_on_device cast (Device_get other) h)
       (\<lambda>(devicePtr, h1). Device_aliasing_ctor HostContext other devicePtr h1)"

definition Device_const_pointer_cast ::
  "(addr \<Rightarrow> addr) \<Rightarrow> device_ptr \<Rightarrow> 'a heap \<Rightarrow> fault + (device_ptr \<times> 'a heap)" where
  "Device_const_pointer_cast cast other h =
     bind_res (const_pointer_cast_on_device cast (Device_get other) h)
       (\<lambda>(devicePtr, h1). Device_aliasing_ctor HostContext other devicePtr h1)"

definition Device_reinterpret_pointer_cast ::
  "(addr \<Rightarrow> addr) \<Rightarrow> device_ptr \<Rightarrow> 'a heap \<Rightarrow> fault + (device_ptr \<times> 'a heap)" where
  "Device_reinterpret_pointer_cast cast other h =
     bind_res (reinterpret_pointer_cast_on_device cast (Device_get other) h)
       (\<lambda>(devicePtr, h1). Device_aliasing_ctor HostContext other devicePtr h1)"

definition Device_dynamic_pointer_cast ::
  "device_ptr \<Rightarrow> 'a heap \<Rightarrow> fault + (device_ptr \<times> 'a heap)" where
  "Device_dynamic_pointer_cast other h = Inl MissingReturn"

section \<open>Compile-time checks\<close>

text \<open>\<open>static_assert(c, msg)\<close> rejects the program with \<open>msg\<close> when the constant \<open>c\<close> is
  false and has no effect otherwise. The type traits are parameters: \<open>is_constructible\<close>
  is the value of \<open>std::is_constructible<T, Args...>::value\<close> for the types at hand. The
  two \<open>dynamic_pointer_cast\<close> templates assert the literal \<open>true\<close>, whatever \<open>T\<close> and
  \<open>U\<close> are.\<close>

datatype compile_result = Accepted | Rejected string

definition static_assert :: "bool \<Rightarrow> string \<Rightarrow> compile_result" where
  "static_assert c msg = (if c then Accepted else Rejected msg)"

definition make_managed_static_assert :: "bool \<Rightarrow> compile_result" where
  "make_managed_static_assert is_constructible =
     static_assert is_constructible ''Type T must be constructible with the given arguments.''"

definition Managed_dynamic_pointer_cast_static_assert :: "'t \<Rightarrow> 'u \<Rightarrow> compile_result" where
  "Managed_dynamic_pointer_cast_static_assert T U =
     static_assert True ''CUDA does not support dynamic_cast''"

definition Device_dynamic_pointer_cast_static_assert :: "'t \<Rightarrow> 'u \<Rightarrow> compile_result" where
  "Device_dynamic_pointer_cast_static_assert T U =
     static_assert True ''CUDA does not support dynamic_cast''"

section \<open>Comparison operators\<close>

text \<open>The operators are declared for \<open>managed_ptr<T>\<close> with the default strategy: Host
  in a build without CUDA, Managed in a build with it.\<close>

definition Host_operator_eq :: "host_ptr \<Rightarrow> host_ptr \<Rightarrow> bool" where
  "Host_operator_eq lhs rhs = (Host_get lhs = Host_get rhs)"

definition Host_operator_ne :: "host_ptr \<Rightarrow> host_ptr \<Rightarrow> bool" where
  "Host_operator_ne lhs rhs = (Host_get lhs \<noteq> Host_get rhs)"

definition Host_operator_eq_nullptr :: "host_ptr \<Rightarrow> bool" where
  "Host_operator_eq_nullptr lhs = (Host_get lhs = nullptr)"

definition Host_nullptr_operator_eq :: "host_ptr \<Rightarrow> bool" where
  "Host_nullptr_operator_eq rhs = (nullptr = Host_get rhs)"

definition Host_operator_ne_nullptr :: "host_ptr \<Rightarrow> bool" where
  "Host_operator_ne_nullptr lhs = (Host_get lhs \<noteq> nullptr)"

definition Host_nullptr_operator_ne :: "host_ptr \<Rightarrow> bool" where
  "Host_nullptr_operator_ne rhs = (nullptr \<noteq> Host_get rhs)"

definition Managed_operator_eq :: "exec_context \<Rightarrow> managed_ptr \<Rightarrow> managed_ptr \<Rightarrow> bool" where
  "Managed_operator_eq ctx lhs rhs = (Managed_get ctx lhs = Managed_get ctx rhs)"

definition Managed_operator_ne :: "exec_context \<Rightarrow> managed_ptr \<Rightarrow> managed_ptr \<Rightarrow> bool" where
  "Managed_operator_ne ctx lhs rhs = (Managed_get ctx lhs \<noteq> Managed_get ctx rhs)"

definition Managed_operator_eq_nullptr :: "exec_context \<Rightarrow> managed_ptr \<Rightarrow> bool" where
  "Managed_operator_eq_nullptr ctx lhs = (Managed_get ctx lhs = nullptr)"

definition Managed_nullptr_operator_eq :: "exec_context \<Rightarrow> managed_ptr \<Rightarrow> bool" where
  "Managed_nullptr_operator_eq ctx rhs = (nullptr = Managed_get ctx rhs)"

definition Managed_operator_ne_nullptr :: "exec_context \<Rightarrow> managed_ptr \<Rightarrow> bool" where
  "Managed_operator_ne_nullptr ctx lhs = (Managed_get ctx lhs \<noteq> nullptr)"

definition Managed_nullptr_operator_ne :: "exec_context \<Rightarrow> managed_ptr \<Rightarrow> bool" where
  "Managed_nullptr_operator_ne ctx rhs = (nullptr \<noteq> Managed_get ctx rhs)"

section \<open>The ownership invariant\<close>

text \<open>The invariant the specification states for every \<open>managed_ptr\<close>: a non-null stored
  pointer comes with a non-null reference counter. A Managed pointer stores two addresses.
  \<open>produces P r\<close> says that the pointer an operation hands back, if it hands one back,
  satisfies \<open>P\<close>.\<close>

definition Host_nonnull_has_counter :: "host_ptr \<Rightarrow> bool" where
  "Host_nonnull_has_counter p \<longleftrightarrow>
     (host_ptr.m_cpu p \<noteq> nullptr \<longrightarrow> host_ptr.m_numReferences p \<noteq> nullptr)"

definition Managed_nonnull_has_counter :: "managed_ptr \<Rightarrow> bool" where
  "Managed_nonnull_has_counter p \<longleftrightarrow>
     (managed_ptr.m_cpu p \<noteq> nullptr \<or> managed_ptr.m_gpu p \<noteq> nullptr \<longrightarrow>
        managed_ptr.m_numReferences p \<noteq> nullptr)"

definition Device_nonnull_has_counter :: "device_ptr \<Rightarrow> bool" where
  "Device_nonnull_has_counter p \<longleftrightarrow>
     (device_ptr.m_gpu p \<noteq> nullptr \<longrightarrow> device_ptr.m_numReferences p \<noteq> nullptr)"

definition produces :: "('p \<Rightarrow> bool) \<Rightarrow> fault + ('p \<times> 'h) \<Rightarrow> bool" where
  "produces P r = (case r of Inl e \<Rightarrow> True | Inr (p, h) \<Rightarrow> P p)"

section \<open>Basic facts\<close>

lemma bind_res_Inr [simp]: "bind_res (Inr x) f = f x"
  by (simp add: bind_res_def)

lemma bind_res_Inl [simp]: "bind_res (Inl e) f = Inl e"
  by (simp add: bind_res_def)

subsection \<open>Host pointers\<close>








lemma Host_aliasing_ctor_live:
  "host_ptr.m_numReferences other \<noteq> nullptr \<Longrightarrow>
   counters h (host_ptr.m_numReferences other) = Some n \<Longrightarrow>
   Host_aliasing_ctor other a h =
     Inr (\<lparr>host_ptr.m_cpu = a, host_ptr.m_numReferences = host_ptr.m_numReferences other\<rparr>,
          h\<lparr>counters := (counters h)(host_ptr.m_numReferences other \<mapsto> n + 1)\<rparr>)"
  by (simp add: Host_aliasing_ctor_def Host_incrementReferenceCount_def)

lemma Host_aliasing_ctor_null:
  "host_ptr.m_numReferences other = nullptr \<Longrightarrow>
   Host_aliasing_ctor other a h =
     Inr (\<lparr>host_ptr.m_cpu = a, host_ptr.m_numReferences = nullptr\<rparr>, h)"
  by (simp add: Host_aliasing_ctor_def Host_incrementReferenceCount_def)

subsection \<open>Managed pointers\<close>

lemma Managed_make_managed_eq:
  "Managed_make_managed args h =
     Inr (\<lparr>managed_ptr.m_cpu = Suc (host_brk h), managed_ptr.m_gpu = Suc (device_brk h),
           managed_ptr.m_numReferences = Suc (Suc (host_brk h)),
           managed_ptr.m_copyArguments = Suc (Suc (Suc (host_brk h))),
           managed_ptr.m_copier = TupleCopier, managed_ptr.m_deleter = TupleDeleter\<rparr>,
          h\<lparr>counters := (counters h)(Suc (Suc (host_brk h)) \<mapsto> 1),
            host_objs := (host_objs h)(Suc (host_brk h) \<mapsto> args),
            payloads := (payloads h)(Suc (Suc (Suc (host_brk h))) \<mapsto> args),
            device_objs := (device_objs h)(Suc (device_brk h) \<mapsto> args),
            host_brk := Suc (Suc (Suc (host_brk h))),
            device_brk := Suc (device_brk h),
            trace := trace h @ [KernelLaunched make_on_device_kernel, DeviceSynchronized]\<rparr>)"
  by (simp add: Managed_make_managed_def new_host_def make_on_device_def launch_def
        make_on_device_body_def cudaDeviceSynchronize_def Managed_managed_ptr_raw_def
        new_counter_def Managed_registerArguments_def Let_def)

lemma call_fn_counters:
  "call_fn f a h = Inr h' \<Longrightarrow> counters h' = counters h"
  by (cases f) (auto split: if_splits option.splits)

lemma Managed_increment_installed:
  "managed_ptr.m_numReferences p \<noteq> nullptr \<Longrightarrow>
   counters h (managed_ptr.m_numReferences p) = Some n \<Longrightarrow>
   managed_ptr.m_copier p = TupleCopier \<Longrightarrow>
   managed_ptr.m_copyArguments p \<noteq> nullptr \<Longrightarrow>
   payloads h (managed_ptr.m_copyArguments p) = Some v \<Longrightarrow>
   Managed_incrementReferenceCount p h =
     Inr (h\<lparr>counters := (counters h)(managed_ptr.m_numReferences p \<mapsto> n + 1),
            trace := trace h @ [CopierCalled (managed_ptr.m_copyArguments p)]\<rparr>)"
  by (simp add: Managed_incrementReferenceCount_def)

lemma Managed_increment_null:
  "managed_ptr.m_numReferences p = nullptr \<Longrightarrow> Managed_incrementReferenceCount p h = Inr h"
  by (simp add: Managed_incrementReferenceCount_def)

lemma Managed_registerArguments_installs:
  "Managed_registerArguments args p0 h0 = (p, h1) \<Longrightarrow>
   managed_ptr.m_copier p = TupleCopier \<and> managed_ptr.m_deleter p = TupleDeleter \<and>
   managed_ptr.m_copyArguments p = Suc (host_brk h0) \<and>
   payloads h1 (managed_ptr.m_copyArguments p) = Some args \<and>
   managed_ptr.m_numReferences p = managed_ptr.m_numReferences p0 \<and>
   managed_ptr.m_cpu p = managed_ptr.m_cpu p0 \<and> managed_ptr.m_gpu p = managed_ptr.m_gpu p0"
  by (auto simp: Managed_registerArguments_def Let_def)

subsection \<open>The ownership invariant\<close>

lemma produces_Inr [simp]: "produces P (Inr (p, h)) = P p"
  by (simp add: produces_def)

lemma produces_Inl [simp]: "produces P (Inl e)"
  by (simp add: produces_def)

lemma produces_bind:
  "(\<And>x. r = Inr x \<Longrightarrow> produces P (f x)) \<Longrightarrow> produces P (bind_res r f)"
  by (cases r) simp_all

lemma nonnull_counter_of_empty:
  fixes h :: "'a heap"
  shows
  "Host_nonnull_has_counter Host_managed_ptr \<and>
   host_ptr.m_numReferences Host_managed_ptr = nullptr \<and>
   Host_use_count Host_managed_ptr h = Inr 0 \<and>
   Host_nonnull_has_counter Host_managed_ptr_nullptr \<and>
   host_ptr.m_numReferences Host_managed_ptr_nullptr = nullptr \<and>
   Host_use_count Host_managed_ptr_nullptr h = Inr 0 \<and>
   Managed_nonnull_has_counter Managed_managed_ptr \<and>
   managed_ptr.m_numReferences Managed_managed_ptr = nullptr \<and>
   Managed_use_count Managed_managed_ptr h = Inr 0 \<and>
   Managed_nonnull_has_counter Managed_managed_ptr_nullptr \<and>
   managed_ptr.m_numReferences Managed_managed_ptr_nullptr = nullptr \<and>
   Managed_use_count Managed_managed_ptr_nullptr h = Inr 0 \<and>
   Device_nonnull_has_counter Device_managed_ptr \<and>
   device_ptr.m_numReferences Device_managed_ptr = nullptr \<and>
   Device_use_count Device_managed_ptr h = Inr 0 \<and>
   Device_nonnull_has_counter Device_managed_ptr_nullptr \<and>
   device_ptr.m_numReferences Device_managed_ptr_nullptr = nullptr \<and>
   Device_use_count Device_managed_ptr_nullptr h = Inr 0"
  by (simp add: Host_nonnull_has_counter_def Managed_nonnull_has_counter_def
        Device_nonnull_has_counter_def Host_managed_ptr_def Host_managed_ptr_nullptr_def
        Managed_managed_ptr_def Managed_managed_ptr_nullptr_def Device_managed_ptr_def
        Device_managed_ptr_nullptr_def Host_use_count_def Managed_use_count_def
        Device_use_count_def)

lemma nonnull_counter_of_made:
  fixes h :: "'a heap"
  shows
  "Host_nonnull_has_counter (fst (Host_managed_ptr_raw hostPtr h)) \<and>
   Host_nonnull_has_counter (fst (Host_make_managed args h)) \<and>
   Host_nonnull_has_counter (fst (Host_make_managed_from_factory f args h)) \<and>
   Managed_nonnull_has_counter (fst (Managed_managed_ptr_raw hostPtr devicePtr h)) \<and>
   produces Managed_nonnull_has_counter (Managed_make_managed args h) \<and>
   produces Managed_nonnull_has_counter (Managed_make_managed_from_factory f g args h) \<and>
   Device_nonnull_has_counter (fst (Device_managed_ptr_raw devicePtr h))"
  by (simp add: Host_nonnull_has_counter_def Managed_nonnull_has_counter_def
        Device_nonnull_has_counter_def Host_managed_ptr_raw_def Host_make_managed_def
        Host_make_managed_from_factory_def Managed_managed_ptr_raw_def Managed_make_managed_def
        Managed_make_managed_from_factory_def Device_managed_ptr_raw_def make_on_device_def make_on_device_from_factory_def
        make_on_device_body_def launch_def Managed_registerArguments_def
        new_counter_def new_host_def Let_def split_beta)

lemma Host_nonnull_counter_preserved:
  fixes h :: "'a heap"
  assumes "Host_nonnull_has_counter other" and "Host_nonnull_has_counter this"
    and "cast nullptr = nullptr"
  shows
  "produces Host_nonnull_has_counter (Host_copy_ctor other h) \<and>
   produces Host_nonnull_has_counter (Host_converting_ctor other h) \<and>
   produces Host_nonnull_has_counter (Host_assign same_object this other h) \<and>
   produces Host_nonnull_has_counter (Host_converting_assign this other h) \<and>
   produces Host_nonnull_has_counter (Host_static_pointer_cast cast other h) \<and>
   produces Host_nonnull_has_counter (Host_dynamic_pointer_cast cast other h) \<and>
   produces Host_nonnull_has_counter (Host_const_pointer_cast cast other h) \<and>
   produces Host_nonnull_has_counter (Host_reinterpret_pointer_cast cast other h)"
  using assms
  by (auto simp: Host_nonnull_has_counter_def Host_copy_ctor_def Host_converting_ctor_def
        Host_assign_def Host_converting_assign_def Host_static_pointer_cast_def
        Host_dynamic_pointer_cast_def Host_const_pointer_cast_def
        Host_reinterpret_pointer_cast_def Host_aliasing_ctor_def Host_get_def
        Host_managed_ptr_def Let_def
        intro!: produces_bind)

lemma Managed_nonnull_counter_preserved:
  fixes h :: "'a heap"
  assumes "Managed_nonnull_has_counter other" and "Managed_nonnull_has_counter this"
    and "cast nullptr = nullptr"
  shows
  "produces Managed_nonnull_has_counter (Managed_copy_ctor ctx other h) \<and>
   produces Managed_nonnull_has_counter (Managed_converting_ctor ctx other h) \<and>
   produces Managed_nonnull_has_counter (Managed_assign ctx same_object this other h) \<and>
   produces Managed_nonnull_has_counter (Managed_converting_assign ctx this other h) \<and>
   produces Managed_nonnull_has_counter (Managed_static_pointer_cast cast other h) \<and>
   produces Managed_nonnull_has_counter (Managed_const_pointer_cast cast other h) \<and>
   produces Managed_nonnull_has_counter (Managed_reinterpret_pointer_cast cast other h) \<and>
   Managed_nonnull_has_counter (fst (Managed_registerArguments args other h))"
  using assms
  by (cases ctx)
    (auto simp: Managed_nonnull_has_counter_def Managed_copy_ctor_def
        Managed_converting_ctor_def Managed_assign_def Managed_converting_assign_def
        Managed_static_pointer_cast_def Managed_const_pointer_cast_def
        Managed_reinterpret_pointer_cast_def Managed_aliasing_ctor_def Managed_get_def
        static_pointer_cast_on_device_def const_pointer_cast_on_device_def
        reinterpret_pointer_cast_on_device_def launch_def Managed_registerArguments_def Let_def
        intro!: produces_bind)

lemma Device_nonnull_counter_preserved:
  fixes h :: "'a heap"
  assumes "Device_nonnull_has_counter other" and "Device_nonnull_has_counter this"
    and "cast nullptr = nullptr"
  shows
  "produces Device_nonnull_has_counter (Device_copy_ctor ctx other h) \<and>
   produces Device_nonnull_has_counter (Device_converting_ctor ctx other h) \<and>
   produces Device_nonnull_has_counter (Device_assign ctx same_object this other h) \<and>
   produces Device_nonnull_has_counter (Device_converting_assign ctx this other h) \<and>
   produces Device_nonnull_has_counter (Device_static_pointer_cast cast other h) \<and>
   produces Device_nonnull_has_counter (Device_const_pointer_cast cast other h) \<and>
   produces Device_nonnull_has_counter (Device_reinterpret_pointer_cast cast other h)"
  using assms
  by (cases ctx)
    (auto simp: Device_nonnull_has_counter_def Device_copy_ctor_def
        Device_converting_ctor_def Device_assign_def Device_converting_assign_def
        Device_static_pointer_cast_def Device_const_pointer_cast_def
        Device_reinterpret_pointer_cast_def Device_aliasing_ctor_def Device_get_def
        static_pointer_cast_on_device_def const_pointer_cast_on_device_def
        reinterpret_pointer_cast_on_device_def launch_def Let_def
        intro!: produces_bind)

lemma nonnull_counter_of_aliasing:
  fixes h :: "'a heap"
  shows
  "(host_ptr.m_numReferences ho \<noteq> nullptr \<or> hostPtr = nullptr \<longrightarrow>
      produces Host_nonnull_has_counter (Host_aliasing_ctor ho hostPtr h)) \<and>
   (managed_ptr.m_numReferences mo \<noteq> nullptr \<or> (hostPtr = nullptr \<and> devicePtr = nullptr) \<longrightarrow>
      produces Managed_nonnull_has_counter (Managed_aliasing_ctor ctx mo hostPtr devicePtr h)) \<and>
   (device_ptr.m_numReferences dv \<noteq> nullptr \<or> devicePtr = nullptr \<longrightarrow>
      produces Device_nonnull_has_counter (Device_aliasing_ctor ctx dv devicePtr h))"
  by (cases ctx)
    (auto simp: Host_nonnull_has_counter_def Managed_nonnull_has_counter_def
        Device_nonnull_has_counter_def Host_aliasing_ctor_def Managed_aliasing_ctor_def
        Device_aliasing_ctor_def Let_def
        intro!: produces_bind)

subsection \<open>Release of a Managed lineage\<close>

text \<open>The last owner's destructor on the host, for a pointer with the installed deleter,
  for one with a null deleter and for one whose deleter was never initialised; the
  destructor of an owner that is not the last; and what is left for a pointer whose
  counter has been freed.\<close>

lemma Managed_release_of_last_owner:
  fixes h :: "'a heap"
  assumes c: "managed_ptr.m_numReferences p \<noteq> nullptr"
      and one: "counters h (managed_ptr.m_numReferences p) = Some 1"
      and del: "managed_ptr.m_deleter p = TupleDeleter"
      and arg: "payloads h (managed_ptr.m_copyArguments p) = Some v"
      and a0: "managed_ptr.m_copyArguments p \<noteq> nullptr"
      and host: "host_objs h (managed_ptr.m_cpu p) = Some x"
      and h0: "managed_ptr.m_cpu p \<noteq> nullptr"
      and dev: "device_objs h (managed_ptr.m_gpu p) = Some y"
      and d0: "managed_ptr.m_gpu p \<noteq> nullptr"
  shows "Managed_dtor HostContext p h =
     Inr (h\<lparr>counters := (counters h)(managed_ptr.m_numReferences p := None),
            payloads := (payloads h)(managed_ptr.m_copyArguments p := None),
            host_objs := (host_objs h)(managed_ptr.m_cpu p := None),
            device_objs := (device_objs h)(managed_ptr.m_gpu p := None),
            trace := trace h @
              [CounterFreed (managed_ptr.m_numReferences p),
               DeleterCalled (managed_ptr.m_copyArguments p),
               HostDeleted (managed_ptr.m_cpu p),
               KernelLaunched destroy_on_device_kernel,
               DeviceDeleted (managed_ptr.m_gpu p),
               DeviceSynchronized]\<rparr>)"
  using assms
  by (simp add: Managed_dtor_def Managed_decrementReferenceCount_def delete_counter_def
        delete_host_def launch_def destroy_on_device_body_def cudaDeviceSynchronize_def)

lemma Managed_release_without_hook:
  fixes h :: "'a heap"
  assumes c: "managed_ptr.m_numReferences p \<noteq> nullptr"
      and one: "counters h (managed_ptr.m_numReferences p) = Some 1"
      and del: "managed_ptr.m_deleter p = NullFn"
      and host: "host_objs h (managed_ptr.m_cpu p) = Some x"
      and h0: "managed_ptr.m_cpu p \<noteq> nullptr"
      and dev: "device_objs h (managed_ptr.m_gpu p) = Some y"
      and d0: "managed_ptr.m_gpu p \<noteq> nullptr"
  shows "Managed_dtor HostContext p h =
     Inr (h\<lparr>counters := (counters h)(managed_ptr.m_numReferences p := None),
            host_objs := (host_objs h)(managed_ptr.m_cpu p := None),
            device_objs := (device_objs h)(managed_ptr.m_gpu p := None),
            trace := trace h @
              [CounterFreed (managed_ptr.m_numReferences p),
               HostDeleted (managed_ptr.m_cpu p),
               KernelLaunched destroy_on_device_kernel,
               DeviceDeleted (managed_ptr.m_gpu p),
               DeviceSynchronized]\<rparr>)"
  using assms
  by (simp add: Managed_dtor_def Managed_decrementReferenceCount_def delete_counter_def
        delete_host_def launch_def destroy_on_device_body_def cudaDeviceSynchronize_def)

lemma Managed_shared_owner_leaves:
  fixes h :: "'a heap"
  assumes "managed_ptr.m_numReferences p \<noteq> nullptr"
      and "counters h (managed_ptr.m_numReferences p) = Some n" and "n \<noteq> 1"
  shows "Managed_dtor HostContext p h =
     Inr (h\<lparr>counters := (counters h)(managed_ptr.m_numReferences p \<mapsto> n - 1)\<rparr>)"
  using assms by (simp add: Managed_dtor_def Managed_decrementReferenceCount_def)

lemma Managed_released_counter_is_dead:
  fixes h :: "'a heap"
  assumes "managed_ptr.m_numReferences q \<noteq> nullptr"
      and "counters h (managed_ptr.m_numReferences q) = None"
  shows "Managed_dtor HostContext q h = Inl UseAfterFree \<and>
         Managed_copy_ctor HostContext q h = Inl UseAfterFree \<and>
         Managed_use_count q h = Inl UseAfterFree"
  using assms
  by (simp add: Managed_dtor_def Managed_decrementReferenceCount_def Managed_copy_ctor_def
        Managed_incrementReferenceCount_def Managed_use_count_def)

lemma Managed_decrement_indeterminate_deleter:
  fixes h :: "'a heap"
  assumes "managed_ptr.m_numReferences p \<noteq> nullptr"
      and "counters h (managed_ptr.m_numReferences p) = Some 1"
      and "managed_ptr.m_deleter p = Indeterminate"
  shows "Managed_dtor HostContext p h = Inl IndeterminateValue"
  using assms
  by (simp add: Managed_dtor_def Managed_decrementReferenceCount_def delete_counter_def)

text \<open>A whole life of a lineage made by \<open>make_managed\<close>: one copy on the host, the copy
  destroyed, the original destroyed. The copy callback runs once, at the copy; the
  release runs once, at the last destruction, in the order deleter, host object, device
  object; nothing of the lineage stays allocated.\<close>

lemma Managed_lifecycle:
  fixes h :: "'a heap"
  shows "\<exists>p h1 h2 h3 h4.
     Managed_make_managed args h = Inr (p, h1) \<and> Managed_use_count p h1 = Inr 1 \<and>
     Managed_copy_ctor HostContext p h1 = Inr (p, h2) \<and> Managed_use_count p h2 = Inr 2 \<and>
     Managed_dtor HostContext p h2 = Inr h3 \<and> Managed_use_count p h3 = Inr 1 \<and>
     Managed_dtor HostContext p h3 = Inr h4 \<and>
     trace h4 = trace h @
       [KernelLaunched make_on_device_kernel, DeviceSynchronized,
        CopierCalled (managed_ptr.m_copyArguments p),
        CounterFreed (managed_ptr.m_numReferences p),
        DeleterCalled (managed_ptr.m_copyArguments p),
        HostDeleted (managed_ptr.m_cpu p),
        KernelLaunched destroy_on_device_kernel,
        DeviceDeleted (managed_ptr.m_gpu p),
        DeviceSynchronized] \<and>
     counters h4 (managed_ptr.m_numReferences p) = None \<and>
     payloads h4 (managed_ptr.m_copyArguments p) = None \<and>
     host_objs h4 (managed_ptr.m_cpu p) = None \<and>
     device_objs h4 (managed_ptr.m_gpu p) = None \<and>
     Managed_dtor HostContext p h4 = Inl UseAfterFree"
  by (simp add: Managed_make_managed_eq Managed_use_count_def Managed_copy_ctor_def
        Managed_incrementReferenceCount_def Managed_dtor_def Managed_decrementReferenceCount_def
        delete_counter_def delete_host_def launch_def destroy_on_device_body_def
        cudaDeviceSynchronize_def)

section \<open>Reference counting of a Host lineage\<close>




section \<open>Release of a Managed lineage\<close>

text \<open>
  Claim C2. When the count of a Managed lineage reaches 0, the release is said to run the
  release hook if one is registered, then to delete the host object, then to delete the
  device object in a single-thread task and to wait for it, once and only once.

  For a lineage whose last owner carries the installed deleter this is what
  \<open>decrementReferenceCount\<close> does (\<open>Managed_release_of_last_owner\<close>): the counter is freed,
  the deleter runs, the host object is deleted, \<open>destroy_on_device\<close> is launched and deletes
  the device object, and the host synchronises; afterwards the counter is gone, so no
  operation on a pointer of that lineage can release again
  (\<open>Managed_released_counter_is_dead\<close>). With a null \<open>m_deleter\<close> the hook would be skipped
  (\<open>Managed_release_without_hook\<close>), but no constructor stores a null \<open>m_deleter\<close>: the
  members \<open>m_copier\<close> and \<open>m_deleter\<close> are the only ones without a default member
  initialiser. A pointer built by \<open>managed_ptr(U* hostPtr, V* devicePtr)\<close> on which
  \<open>registerArguments\<close> was never called therefore reaches \<open>if (m_deleter)\<close> with an
  indeterminate value. The theorem evaluates that case: the pointer owns a live host
  object and a live device object, its count is 1, and its destruction on the host stops
  at the read of \<open>m_deleter\<close>, after the counter was freed and before either object is
  deleted.
\<close>

theorem C2_unregistered_release_reads_indeterminate:
  "Managed_managed_ptr_raw 1 1
     (\<lparr>counters = Map.empty, host_objs = [1 \<mapsto> ()], payloads = Map.empty,
       device_objs = [1 \<mapsto> ()], host_brk = 1, device_brk = 1, trace = []\<rparr> :: unit heap) =
     (\<lparr>managed_ptr.m_cpu = 1, managed_ptr.m_gpu = 1, managed_ptr.m_numReferences = 2,
       managed_ptr.m_copyArguments = nullptr, managed_ptr.m_copier = Indeterminate,
       managed_ptr.m_deleter = Indeterminate\<rparr>,
      \<lparr>counters = [2 \<mapsto> 1], host_objs = [1 \<mapsto> ()], payloads = Map.empty,
       device_objs = [1 \<mapsto> ()], host_brk = 2, device_brk = 1, trace = []\<rparr>) \<and>
   Managed_use_count
     \<lparr>managed_ptr.m_cpu = 1, managed_ptr.m_gpu = 1, managed_ptr.m_numReferences = 2,
       managed_ptr.m_copyArguments = nullptr, managed_ptr.m_copier = Indeterminate,
       managed_ptr.m_deleter = Indeterminate\<rparr>
     (\<lparr>counters = [2 \<mapsto> 1], host_objs = [1 \<mapsto> ()], payloads = Map.empty,
       device_objs = [1 \<mapsto> ()], host_brk = 2, device_brk = 1, trace = []\<rparr> :: unit heap) = Inr 1 \<and>
   Managed_dtor HostContext
     \<lparr>managed_ptr.m_cpu = 1, managed_ptr.m_gpu = 1, managed_ptr.m_numReferences = 2,
       managed_ptr.m_copyArguments = nullptr, managed_ptr.m_copier = Indeterminate,
       managed_ptr.m_deleter = Indeterminate\<rparr>
     (\<lparr>counters = [2 \<mapsto> 1], host_objs = [1 \<mapsto> ()], payloads = Map.empty,
       device_objs = [1 \<mapsto> ()], host_brk = 2, device_brk = 1, trace = []\<rparr> :: unit heap) =
     Inl IndeterminateValue"
  by (simp add: Managed_managed_ptr_raw_def new_counter_def Let_def Managed_use_count_def
        Managed_dtor_def Managed_decrementReferenceCount_def delete_counter_def numeral_2_eq_2)

section \<open>\<open>dynamic_pointer_cast\<close> on the Managed and Device strategies\<close>

text \<open>
  Claim C3. \<open>dynamic_pointer_cast\<close> on a Managed or Device pointer is said to be rejected
  at compile time, for every element type. Both templates assert the literal \<open>true\<close>,
  which no choice of \<open>T\<close> and \<open>U\<close> makes false: the assertion accepts every instantiation,
  and a call then runs off the end of the function without a \<open>return\<close>. For contrast,
  the assertion of \<open>make_managed\<close> does reject when its condition is false.
\<close>

theorem C3_dynamic_pointer_cast_compiles:
  "Managed_dynamic_pointer_cast_static_assert T U = Accepted \<and>
   Device_dynamic_pointer_cast_static_assert T' U' = Accepted \<and>
   Managed_dynamic_pointer_cast other h = Inl MissingReturn \<and>
   Device_dynamic_pointer_cast other' h = Inl MissingReturn \<and>
   make_managed_static_assert False =
     Rejected ''Type T must be constructible with the given arguments.''"
  by (simp add: Managed_dynamic_pointer_cast_static_assert_def
        Device_dynamic_pointer_cast_static_assert_def static_assert_def
        Managed_dynamic_pointer_cast_def Device_dynamic_pointer_cast_def
        make_managed_static_assert_def)

section \<open>\<open>dynamic_pointer_cast\<close> on the Host strategy\<close>

text \<open>
  Claim C4. On a Host pointer, \<open>dynamic_pointer_cast<T>\<close> returns an empty pointer (null
  address, no counter, \<open>use_count() = 0\<close>) and leaves the heap, and with it the original
  counter, untouched when \<open>dynamic_cast\<close> yields null. When \<open>dynamic_cast\<close> succeeds it
  returns a pointer that holds the cast address and the counter of the original, of which
  it is one more owner; both then read the same count, and a copy made afterwards of
  either of them raises the count that both read.
\<close>

theorem C4_host_dynamic_pointer_cast:
  fixes h :: "'a heap"
  shows
  "(cast (Host_get other) = nullptr \<longrightarrow>
      Host_dynamic_pointer_cast cast other h = Inr (Host_managed_ptr, h) \<and>
      Host_get Host_managed_ptr = nullptr \<and>
      host_ptr.m_numReferences Host_managed_ptr = nullptr \<and>
      Host_use_count Host_managed_ptr h = Inr 0) \<and>
   (cast (Host_get other) \<noteq> nullptr \<and> Host_use_count other h = Inr n \<longrightarrow>
      (\<exists>p h'. Host_dynamic_pointer_cast cast other h = Inr (p, h') \<and>
         Host_get p = cast (Host_get other) \<and>
         host_ptr.m_numReferences p = host_ptr.m_numReferences other \<and>
         Host_use_count p h' =
           Inr (if host_ptr.m_numReferences other = nullptr then 0 else n + 1) \<and>
         Host_use_count other h' = Host_use_count p h' \<and>
         (\<exists>q h''. Host_copy_ctor p h' = Inr (q, h'') \<and>
            Host_use_count p h'' =
              Inr (if host_ptr.m_numReferences other = nullptr then 0 else n + 2) \<and>
            Host_use_count other h'' = Host_use_count p h'') \<and>
         (\<exists>q h''. Host_copy_ctor other h' = Inr (q, h'') \<and>
            Host_use_count other h'' =
              Inr (if host_ptr.m_numReferences other = nullptr then 0 else n + 2) \<and>
            Host_use_count p h'' = Host_use_count other h'')))"
proof (intro conjI impI)
  assume "cast (Host_get other) = nullptr"
  then show "Host_dynamic_pointer_cast cast other h = Inr (Host_managed_ptr, h)"
    by (simp add: Host_dynamic_pointer_cast_def)
next
  show "Host_get Host_managed_ptr = nullptr"
    by (simp add: Host_get_def Host_managed_ptr_def)
next
  show "host_ptr.m_numReferences Host_managed_ptr = nullptr"
    by (simp add: Host_managed_ptr_def)
next
  show "Host_use_count Host_managed_ptr h = Inr 0"
    by (simp add: Host_use_count_def Host_managed_ptr_def)
next
  assume a: "cast (Host_get other) \<noteq> nullptr \<and> Host_use_count other h = Inr n"
  let ?c = "host_ptr.m_numReferences other"
  let ?p = "\<lparr>host_ptr.m_cpu = cast (Host_get other), host_ptr.m_numReferences = ?c\<rparr>"
  show "\<exists>p h'. Host_dynamic_pointer_cast cast other h = Inr (p, h') \<and>
         Host_get p = cast (Host_get other) \<and>
         host_ptr.m_numReferences p = host_ptr.m_numReferences other \<and>
         Host_use_count p h' =
           Inr (if host_ptr.m_numReferences other = nullptr then 0 else n + 1) \<and>
         Host_use_count other h' = Host_use_count p h' \<and>
         (\<exists>q h''. Host_copy_ctor p h' = Inr (q, h'') \<and>
            Host_use_count p h'' =
              Inr (if host_ptr.m_numReferences other = nullptr then 0 else n + 2) \<and>
            Host_use_count other h'' = Host_use_count p h'') \<and>
         (\<exists>q h''. Host_copy_ctor other h' = Inr (q, h'') \<and>
            Host_use_count other h'' =
              Inr (if host_ptr.m_numReferences other = nullptr then 0 else n + 2) \<and>
            Host_use_count p h'' = Host_use_count other h'')"
  proof (cases "?c = nullptr")
    case True
    with a have "Host_dynamic_pointer_cast cast other h = Inr (?p, h)"
      by (simp add: Host_dynamic_pointer_cast_def Host_aliasing_ctor_null)
    with True show ?thesis
      by (simp add: Host_get_def Host_use_count_def Host_copy_ctor_def
            Host_incrementReferenceCount_def)
  next
    case False
    with a have live: "counters h ?c = Some n"
      by (simp add: Host_use_count_def split: option.splits)
    let ?h' = "h\<lparr>counters := (counters h)(?c \<mapsto> n + 1)\<rparr>"
    from a False live have "Host_dynamic_pointer_cast cast other h = Inr (?p, ?h')"
      by (simp add: Host_dynamic_pointer_cast_def Host_aliasing_ctor_live)
    with False show ?thesis
      by (simp add: Host_get_def Host_use_count_def Host_copy_ctor_def
            Host_incrementReferenceCount_def add.assoc)
  qed
qed

theorem C4_host_dynamic_pointer_cast_witness:
  "(\<lambda>a. nullptr) (Host_get \<lparr>host_ptr.m_cpu = 1, host_ptr.m_numReferences = 2\<rparr>) = nullptr \<and>
   Host_dynamic_pointer_cast (\<lambda>a. nullptr) \<lparr>host_ptr.m_cpu = 1, host_ptr.m_numReferences = 2\<rparr>
     \<lparr>counters = [2 \<mapsto> 1], host_objs = [1 \<mapsto> ()], payloads = Map.empty,
      device_objs = Map.empty, host_brk = 2, device_brk = 0, trace = []\<rparr> =
     Inr (Host_managed_ptr,
       \<lparr>counters = [2 \<mapsto> 1], host_objs = [1 \<mapsto> ()], payloads = Map.empty,
        device_objs = Map.empty, host_brk = 2, device_brk = 0, trace = []\<rparr>) \<and>
   (\<lambda>a. a) (Host_get \<lparr>host_ptr.m_cpu = 1, host_ptr.m_numReferences = 2\<rparr>) \<noteq> nullptr \<and>
   Host_use_count \<lparr>host_ptr.m_cpu = 1, host_ptr.m_numReferences = 2\<rparr>
     \<lparr>counters = [2 \<mapsto> 1], host_objs = [1 \<mapsto> ()], payloads = Map.empty,
      device_objs = Map.empty, host_brk = 2, device_brk = 0, trace = []\<rparr> = Inr 1 \<and>
   (\<exists>p h'. Host_dynamic_pointer_cast (\<lambda>a. a) \<lparr>host_ptr.m_cpu = 1, host_ptr.m_numReferences = 2\<rparr>
        \<lparr>counters = [2 \<mapsto> 1], host_objs = [1 \<mapsto> ()], payloads = Map.empty,
         device_objs = Map.empty, host_brk = 2, device_brk = 0, trace = []\<rparr> = Inr (p, h') \<and>
      host_ptr.m_numReferences p = 2 \<and>
      Host_use_count p h' = Inr 2 \<and>
      Host_use_count \<lparr>host_ptr.m_cpu = 1, host_ptr.m_numReferences = 2\<rparr> h' = Inr 2)"
proof -
  let ?o = "\<lparr>host_ptr.m_cpu = 1, host_ptr.m_numReferences = 2\<rparr>"
  let ?h = "\<lparr>counters = [2 \<mapsto> 1], host_objs = [1 \<mapsto> ()], payloads = Map.empty,
      device_objs = Map.empty, host_brk = 2, device_brk = 0, trace = []\<rparr> :: unit heap"
  have fails: "(\<lambda>a. nullptr) (Host_get ?o) = nullptr"
    by simp
  have succeeds: "(\<lambda>a. a) (Host_get ?o) \<noteq> nullptr" and count: "Host_use_count ?o ?h = Inr 1"
    by (simp_all add: Host_get_def Host_use_count_def)
  from C4_host_dynamic_pointer_cast [of "\<lambda>a. nullptr" ?o ?h 1]
    C4_host_dynamic_pointer_cast [of "\<lambda>a. a" ?o ?h 1] fails succeeds count
  show ?thesis
    by (auto simp: )
qed

section \<open>Dereferencing a Managed pointer\<close>

text \<open>
  Claim C5. For every Managed pointer, \<open>get\<close>, \<open>operator->\<close> and \<open>operator*\<close> resolve to
  the stored host address in host context and to the stored device address in device
  context. For a pointer made by \<open>make_managed\<close> the same expression \<open>*p\<close> thus reaches the
  host instance on the host and the device instance on the device.
\<close>

theorem C5_managed_dereference_by_context:
  fixes h :: "'a heap"
  shows
  "Managed_get HostContext p = managed_ptr.m_cpu p \<and>
   Managed_get DeviceContext p = managed_ptr.m_gpu p \<and>
   Managed_arrow HostContext p = managed_ptr.m_cpu p \<and>
   Managed_arrow DeviceContext p = managed_ptr.m_gpu p \<and>
   Managed_star HostContext p h = deref (host_objs h) (managed_ptr.m_cpu p) \<and>
   Managed_star DeviceContext p h = deref (device_objs h) (managed_ptr.m_gpu p) \<and>
   (\<exists>r h'. Managed_make_managed args h = Inr (r, h') \<and>
      Managed_star HostContext r h' = Inr (Managed_get HostContext r, args) \<and>
      Managed_star DeviceContext r h' = Inr (Managed_get DeviceContext r, args))"
  by (simp add: Managed_get_def Managed_arrow_def Managed_star_def Managed_make_managed_eq
        deref_def)

section \<open>Copies of a Managed pointer in device context\<close>

text \<open>
  Claim C6. In device context, the copy constructor, the converting constructor, the
  aliasing constructor, both assignments and the destructor of a Managed pointer leave
  the heap unchanged, the shared counter included. In host context, each of the
  constructors and each assignment into an empty pointer raises the counter of a pointer
  with an installed copy callback by one.
\<close>

theorem C6_device_context_leaves_counter:
  fixes h :: "'a heap"
  shows
  "Managed_copy_ctor DeviceContext other h = Inr (other, h) \<and>
   Managed_converting_ctor DeviceContext other h = Inr (other, h) \<and>
   Managed_aliasing_ctor DeviceContext other hostPtr devicePtr h =
     Inr (other\<lparr>managed_ptr.m_cpu := hostPtr, managed_ptr.m_gpu := devicePtr\<rparr>, h) \<and>
   Managed_assign DeviceContext same_object this other h =
     Inr (if same_object then this else other, h) \<and>
   Managed_converting_assign DeviceContext this other h = Inr (other, h) \<and>
   Managed_dtor DeviceContext this h = Inr h \<and>
   (managed_ptr.m_numReferences other \<noteq> nullptr \<and>
    counters h (managed_ptr.m_numReferences other) = Some n \<and>
    managed_ptr.m_copier other = TupleCopier \<and>
    managed_ptr.m_copyArguments other \<noteq> nullptr \<and>
    payloads h (managed_ptr.m_copyArguments other) = Some v \<longrightarrow>
      (\<exists>h'. Managed_copy_ctor HostContext other h = Inr (other, h') \<and>
         counters h' (managed_ptr.m_numReferences other) = Some (n + 1)) \<and>
      (\<exists>h'. Managed_converting_ctor HostContext other h = Inr (other, h') \<and>
         counters h' (managed_ptr.m_numReferences other) = Some (n + 1)) \<and>
      (\<exists>h'. Managed_aliasing_ctor HostContext other hostPtr devicePtr h =
           Inr (other\<lparr>managed_ptr.m_cpu := hostPtr, managed_ptr.m_gpu := devicePtr\<rparr>, h') \<and>
         counters h' (managed_ptr.m_numReferences other) = Some (n + 1)) \<and>
      (managed_ptr.m_numReferences this = nullptr \<longrightarrow>
         (\<exists>h'. Managed_assign HostContext False this other h = Inr (other, h') \<and>
            counters h' (managed_ptr.m_numReferences other) = Some (n + 1)) \<and>
         (\<exists>h'. Managed_converting_assign HostContext this other h = Inr (other, h') \<and>
            counters h' (managed_ptr.m_numReferences other) = Some (n + 1))))"
proof -
  have device: "Managed_copy_ctor DeviceContext other h = Inr (other, h) \<and>
   Managed_converting_ctor DeviceContext other h = Inr (other, h) \<and>
   Managed_aliasing_ctor DeviceContext other hostPtr devicePtr h =
     Inr (other\<lparr>managed_ptr.m_cpu := hostPtr, managed_ptr.m_gpu := devicePtr\<rparr>, h) \<and>
   Managed_assign DeviceContext same_object this other h =
     Inr (if same_object then this else other, h) \<and>
   Managed_converting_assign DeviceContext this other h = Inr (other, h) \<and>
   Managed_dtor DeviceContext this h = Inr h"
    by (simp add: Managed_copy_ctor_def Managed_converting_ctor_def Managed_aliasing_ctor_def
          Managed_assign_def Managed_converting_assign_def Managed_dtor_def)
  have host: "(\<exists>h'. Managed_copy_ctor HostContext other h = Inr (other, h') \<and>
         counters h' (managed_ptr.m_numReferences other) = Some (n + 1)) \<and>
      (\<exists>h'. Managed_converting_ctor HostContext other h = Inr (other, h') \<and>
         counters h' (managed_ptr.m_numReferences other) = Some (n + 1)) \<and>
      (\<exists>h'. Managed_aliasing_ctor HostContext other hostPtr devicePtr h =
           Inr (other\<lparr>managed_ptr.m_cpu := hostPtr, managed_ptr.m_gpu := devicePtr\<rparr>, h') \<and>
         counters h' (managed_ptr.m_numReferences other) = Some (n + 1)) \<and>
      (managed_ptr.m_numReferences this = nullptr \<longrightarrow>
         (\<exists>h'. Managed_assign HostContext False this other h = Inr (other, h') \<and>
            counters h' (managed_ptr.m_numReferences other) = Some (n + 1)) \<and>
         (\<exists>h'. Managed_converting_assign HostContext this other h = Inr (other, h') \<and>
            counters h' (managed_ptr.m_numReferences other) = Some (n + 1)))"
    if "managed_ptr.m_numReferences other \<noteq> nullptr"
      "counters h (managed_ptr.m_numReferences other) = Some n"
      "managed_ptr.m_copier other = TupleCopier"
      "managed_ptr.m_copyArguments other \<noteq> nullptr"
      "payloads h (managed_ptr.m_copyArguments other) = Some v"
    using that
    by (simp add: Managed_copy_ctor_def Managed_converting_ctor_def Managed_aliasing_ctor_def
          Managed_assign_def Managed_converting_assign_def Managed_increment_installed
          Managed_decrementReferenceCount_def)
  from device host show ?thesis
    by blast
qed

theorem C6_device_context_leaves_counter_witness:
  "Managed_make_managed () (empty_heap :: unit heap) =
     Inr (\<lparr>managed_ptr.m_cpu = 1, managed_ptr.m_gpu = 1, managed_ptr.m_numReferences = 2,
           managed_ptr.m_copyArguments = 3, managed_ptr.m_copier = TupleCopier,
           managed_ptr.m_deleter = TupleDeleter\<rparr>,
          \<lparr>counters = [2 \<mapsto> 1], host_objs = [1 \<mapsto> ()], payloads = [3 \<mapsto> ()],
           device_objs = [1 \<mapsto> ()], host_brk = 3, device_brk = 1,
           trace = [KernelLaunched make_on_device_kernel, DeviceSynchronized]\<rparr>) \<and>
   Managed_copy_ctor DeviceContext
     \<lparr>managed_ptr.m_cpu = 1, managed_ptr.m_gpu = 1, managed_ptr.m_numReferences = 2,
      managed_ptr.m_copyArguments = 3, managed_ptr.m_copier = TupleCopier,
      managed_ptr.m_deleter = TupleDeleter\<rparr>
     (\<lparr>counters = [2 \<mapsto> 1], host_objs = [1 \<mapsto> ()], payloads = [3 \<mapsto> ()],
       device_objs = [1 \<mapsto> ()], host_brk = 3, device_brk = 1,
       trace = [KernelLaunched make_on_device_kernel, DeviceSynchronized]\<rparr> :: unit heap) =
     Inr (\<lparr>managed_ptr.m_cpu = 1, managed_ptr.m_gpu = 1, managed_ptr.m_numReferences = 2,
           managed_ptr.m_copyArguments = 3, managed_ptr.m_copier = TupleCopier,
           managed_ptr.m_deleter = TupleDeleter\<rparr>,
          \<lparr>counters = [2 \<mapsto> 1], host_objs = [1 \<mapsto> ()], payloads = [3 \<mapsto> ()],
           device_objs = [1 \<mapsto> ()], host_brk = 3, device_brk = 1,
           trace = [KernelLaunched make_on_device_kernel, DeviceSynchronized]\<rparr>) \<and>
   (\<exists>h'. Managed_copy_ctor HostContext
        \<lparr>managed_ptr.m_cpu = 1, managed_ptr.m_gpu = 1, managed_ptr.m_numReferences = 2,
         managed_ptr.m_copyArguments = 3, managed_ptr.m_copier = TupleCopier,
         managed_ptr.m_deleter = TupleDeleter\<rparr>
        (\<lparr>counters = [2 \<mapsto> 1], host_objs = [1 \<mapsto> ()], payloads = [3 \<mapsto> ()],
          device_objs = [1 \<mapsto> ()], host_brk = 3, device_brk = 1,
          trace = [KernelLaunched make_on_device_kernel, DeviceSynchronized]\<rparr> :: unit heap) =
        Inr (\<lparr>managed_ptr.m_cpu = 1, managed_ptr.m_gpu = 1, managed_ptr.m_numReferences = 2,
              managed_ptr.m_copyArguments = 3, managed_ptr.m_copier = TupleCopier,
              managed_ptr.m_deleter = TupleDeleter\<rparr>, h') \<and>
      counters h' 2 = Some 2) \<and>
   (\<exists>h'. Managed_assign HostContext False Managed_managed_ptr
        \<lparr>managed_ptr.m_cpu = 1, managed_ptr.m_gpu = 1, managed_ptr.m_numReferences = 2,
         managed_ptr.m_copyArguments = 3, managed_ptr.m_copier = TupleCopier,
         managed_ptr.m_deleter = TupleDeleter\<rparr>
        (\<lparr>counters = [2 \<mapsto> 1], host_objs = [1 \<mapsto> ()], payloads = [3 \<mapsto> ()],
          device_objs = [1 \<mapsto> ()], host_brk = 3, device_brk = 1,
          trace = [KernelLaunched make_on_device_kernel, DeviceSynchronized]\<rparr> :: unit heap) =
        Inr (\<lparr>managed_ptr.m_cpu = 1, managed_ptr.m_gpu = 1, managed_ptr.m_numReferences = 2,
              managed_ptr.m_copyArguments = 3, managed_ptr.m_copier = TupleCopier,
              managed_ptr.m_deleter = TupleDeleter\<rparr>, h') \<and>
      counters h' 2 = Some 2)"
proof -
  let ?p = "\<lparr>managed_ptr.m_cpu = 1, managed_ptr.m_gpu = 1, managed_ptr.m_numReferences = 2,
      managed_ptr.m_copyArguments = 3, managed_ptr.m_copier = TupleCopier,
      managed_ptr.m_deleter = TupleDeleter\<rparr>"
  let ?h = "\<lparr>counters = [2 \<mapsto> 1], host_objs = [1 \<mapsto> ()], payloads = [3 \<mapsto> ()],
       device_objs = [1 \<mapsto> ()], host_brk = 3, device_brk = 1,
       trace = [KernelLaunched make_on_device_kernel, DeviceSynchronized]\<rparr> :: unit heap"
  have made: "Managed_make_managed () (empty_heap :: unit heap) = Inr (?p, ?h)"
    by (simp add: Managed_make_managed_eq empty_heap_def numeral_2_eq_2 numeral_3_eq_3)
  have hyps: "managed_ptr.m_numReferences ?p \<noteq> nullptr"
    "counters ?h (managed_ptr.m_numReferences ?p) = Some 1"
    "managed_ptr.m_copier ?p = TupleCopier"
    "managed_ptr.m_copyArguments ?p \<noteq> nullptr"
    "payloads ?h (managed_ptr.m_copyArguments ?p) = Some ()"
    "managed_ptr.m_numReferences Managed_managed_ptr = nullptr"
    by (simp_all add: Managed_managed_ptr_def)
  from C6_device_context_leaves_counter [of ?p ?h 1 1 False Managed_managed_ptr 1 "()"]
    made hyps
  show ?thesis
    by simp
qed

section \<open>The copy callback\<close>

text \<open>
  Claim C7. Let \<open>other\<close> be a Managed pointer on which \<open>registerArguments\<close> has installed
  the copy callback, with the saved arguments still allocated. Every host-side operation
  that increments the counter through \<open>other\<close> (copy construction, converting construction,
  aliasing construction, and either assignment of \<open>other\<close> into \<open>this\<close> once \<open>this\<close> has let
  go of what it held) raises the counter by one and appends exactly one call of the copy
  callback on the saved arguments to the trace. When \<open>other\<close> has no counter there is no
  increment and no call.
\<close>

theorem C7_copy_callback_once_per_increment:
  fixes h0 h1 h :: "'a heap"
  assumes reg: "Managed_registerArguments args p0 h0 = (other, h1)"
  shows
  "(managed_ptr.m_numReferences other \<noteq> nullptr \<and>
    counters h (managed_ptr.m_numReferences other) = Some n \<and>
    payloads h (managed_ptr.m_copyArguments other) = Some v \<longrightarrow>
      (\<exists>h'. Managed_copy_ctor HostContext other h = Inr (other, h') \<and>
         counters h' (managed_ptr.m_numReferences other) = Some (n + 1) \<and>
         trace h' = trace h @ [CopierCalled (managed_ptr.m_copyArguments other)]) \<and>
      (\<exists>h'. Managed_converting_ctor HostContext other h = Inr (other, h') \<and>
         counters h' (managed_ptr.m_numReferences other) = Some (n + 1) \<and>
         trace h' = trace h @ [CopierCalled (managed_ptr.m_copyArguments other)]) \<and>
      (\<exists>h'. Managed_aliasing_ctor HostContext other hostPtr devicePtr h =
           Inr (other\<lparr>managed_ptr.m_cpu := hostPtr, managed_ptr.m_gpu := devicePtr\<rparr>, h') \<and>
         counters h' (managed_ptr.m_numReferences other) = Some (n + 1) \<and>
         trace h' = trace h @ [CopierCalled (managed_ptr.m_copyArguments other)])) \<and>
   (managed_ptr.m_numReferences other \<noteq> nullptr \<and>
    Managed_decrementReferenceCount this h = Inr hr \<and>
    counters hr (managed_ptr.m_numReferences other) = Some n \<and>
    payloads hr (managed_ptr.m_copyArguments other) = Some v \<longrightarrow>
      (\<exists>h'. Managed_assign HostContext False this other h = Inr (other, h') \<and>
         counters h' (managed_ptr.m_numReferences other) = Some (n + 1) \<and>
         trace h' = trace hr @ [CopierCalled (managed_ptr.m_copyArguments other)]) \<and>
      (\<exists>h'. Managed_converting_assign HostContext this other h = Inr (other, h') \<and>
         counters h' (managed_ptr.m_numReferences other) = Some (n + 1) \<and>
         trace h' = trace hr @ [CopierCalled (managed_ptr.m_copyArguments other)])) \<and>
   (managed_ptr.m_numReferences other = nullptr \<longrightarrow>
      Managed_copy_ctor HostContext other h = Inr (other, h) \<and>
      Managed_converting_ctor HostContext other h = Inr (other, h) \<and>
      Managed_aliasing_ctor HostContext other hostPtr devicePtr h =
        Inr (other\<lparr>managed_ptr.m_cpu := hostPtr, managed_ptr.m_gpu := devicePtr\<rparr>, h) \<and>
      (Managed_decrementReferenceCount this h = Inr hr \<longrightarrow>
         Managed_assign HostContext False this other h = Inr (other, hr) \<and>
         Managed_converting_assign HostContext this other h = Inr (other, hr)))"
proof -
  from Managed_registerArguments_installs [OF reg]
  have inst: "managed_ptr.m_copier other = TupleCopier"
    "managed_ptr.m_copyArguments other \<noteq> nullptr"
    by simp_all
  have ctors: "(\<exists>h'. Managed_copy_ctor HostContext other h = Inr (other, h') \<and>
         counters h' (managed_ptr.m_numReferences other) = Some (n + 1) \<and>
         trace h' = trace h @ [CopierCalled (managed_ptr.m_copyArguments other)]) \<and>
      (\<exists>h'. Managed_converting_ctor HostContext other h = Inr (other, h') \<and>
         counters h' (managed_ptr.m_numReferences other) = Some (n + 1) \<and>
         trace h' = trace h @ [CopierCalled (managed_ptr.m_copyArguments other)]) \<and>
      (\<exists>h'. Managed_aliasing_ctor HostContext other hostPtr devicePtr h =
           Inr (other\<lparr>managed_ptr.m_cpu := hostPtr, managed_ptr.m_gpu := devicePtr\<rparr>, h') \<and>
         counters h' (managed_ptr.m_numReferences other) = Some (n + 1) \<and>
         trace h' = trace h @ [CopierCalled (managed_ptr.m_copyArguments other)])"
    if "managed_ptr.m_numReferences other \<noteq> nullptr"
      "counters h (managed_ptr.m_numReferences other) = Some n"
      "payloads h (managed_ptr.m_copyArguments other) = Some v"
    using that inst
    by (simp add: Managed_copy_ctor_def Managed_converting_ctor_def Managed_aliasing_ctor_def
          Managed_increment_installed)
  have assigns: "(\<exists>h'. Managed_assign HostContext False this other h = Inr (other, h') \<and>
         counters h' (managed_ptr.m_numReferences other) = Some (n + 1) \<and>
         trace h' = trace hr @ [CopierCalled (managed_ptr.m_copyArguments other)]) \<and>
      (\<exists>h'. Managed_converting_assign HostContext this other h = Inr (other, h') \<and>
         counters h' (managed_ptr.m_numReferences other) = Some (n + 1) \<and>
         trace h' = trace hr @ [CopierCalled (managed_ptr.m_copyArguments other)])"
    if "managed_ptr.m_numReferences other \<noteq> nullptr"
      "Managed_decrementReferenceCount this h = Inr hr"
      "counters hr (managed_ptr.m_numReferences other) = Some n"
      "payloads hr (managed_ptr.m_copyArguments other) = Some v"
    using that inst
    by (simp add: Managed_assign_def Managed_converting_assign_def Managed_increment_installed)
  have uncounted: "Managed_copy_ctor HostContext other h = Inr (other, h) \<and>
      Managed_converting_ctor HostContext other h = Inr (other, h) \<and>
      Managed_aliasing_ctor HostContext other hostPtr devicePtr h =
        Inr (other\<lparr>managed_ptr.m_cpu := hostPtr, managed_ptr.m_gpu := devicePtr\<rparr>, h) \<and>
      (Managed_decrementReferenceCount this h = Inr hr \<longrightarrow>
         Managed_assign HostContext False this other h = Inr (other, hr) \<and>
         Managed_converting_assign HostContext this other h = Inr (other, hr))"
    if "managed_ptr.m_numReferences other = nullptr"
    using that
    by (simp add: Managed_copy_ctor_def Managed_converting_ctor_def Managed_aliasing_ctor_def
          Managed_assign_def Managed_converting_assign_def Managed_increment_null)
  from ctors assigns uncounted show ?thesis
    by blast
qed

theorem C7_copy_callback_once_per_increment_witness:
  "Managed_registerArguments ()
     \<lparr>managed_ptr.m_cpu = 1, managed_ptr.m_gpu = 1, managed_ptr.m_numReferences = 2,
      managed_ptr.m_copyArguments = nullptr, managed_ptr.m_copier = Indeterminate,
      managed_ptr.m_deleter = Indeterminate\<rparr>
     (\<lparr>counters = [2 \<mapsto> 1], host_objs = [1 \<mapsto> ()], payloads = Map.empty,
       device_objs = [1 \<mapsto> ()], host_brk = 2, device_brk = 1, trace = []\<rparr> :: unit heap) =
     (\<lparr>managed_ptr.m_cpu = 1, managed_ptr.m_gpu = 1, managed_ptr.m_numReferences = 2,
       managed_ptr.m_copyArguments = 3, managed_ptr.m_copier = TupleCopier,
       managed_ptr.m_deleter = TupleDeleter\<rparr>,
      \<lparr>counters = [2 \<mapsto> 1], host_objs = [1 \<mapsto> ()], payloads = [3 \<mapsto> ()],
       device_objs = [1 \<mapsto> ()], host_brk = 3, device_brk = 1, trace = []\<rparr>) \<and>
   Managed_decrementReferenceCount Managed_managed_ptr
     (\<lparr>counters = [2 \<mapsto> 1], host_objs = [1 \<mapsto> ()], payloads = [3 \<mapsto> ()],
       device_objs = [1 \<mapsto> ()], host_brk = 3, device_brk = 1, trace = []\<rparr> :: unit heap) =
     Inr \<lparr>counters = [2 \<mapsto> 1], host_objs = [1 \<mapsto> ()], payloads = [3 \<mapsto> ()],
       device_objs = [1 \<mapsto> ()], host_brk = 3, device_brk = 1, trace = []\<rparr> \<and>
   (\<exists>h'. Managed_copy_ctor HostContext
        \<lparr>managed_ptr.m_cpu = 1, managed_ptr.m_gpu = 1, managed_ptr.m_numReferences = 2,
         managed_ptr.m_copyArguments = 3, managed_ptr.m_copier = TupleCopier,
         managed_ptr.m_deleter = TupleDeleter\<rparr>
        (\<lparr>counters = [2 \<mapsto> 1], host_objs = [1 \<mapsto> ()], payloads = [3 \<mapsto> ()],
          device_objs = [1 \<mapsto> ()], host_brk = 3, device_brk = 1, trace = []\<rparr> :: unit heap) =
        Inr (\<lparr>managed_ptr.m_cpu = 1, managed_ptr.m_gpu = 1, managed_ptr.m_numReferences = 2,
              managed_ptr.m_copyArguments = 3, managed_ptr.m_copier = TupleCopier,
              managed_ptr.m_deleter = TupleDeleter\<rparr>, h') \<and>
      counters h' 2 = Some 2 \<and> trace h' = [CopierCalled 3]) \<and>
   (\<exists>h'. Managed_assign HostContext False Managed_managed_ptr
        \<lparr>managed_ptr.m_cpu = 1, managed_ptr.m_gpu = 1, managed_ptr.m_numReferences = 2,
         managed_ptr.m_copyArguments = 3, managed_ptr.m_copier = TupleCopier,
         managed_ptr.m_deleter = TupleDeleter\<rparr>
        (\<lparr>counters = [2 \<mapsto> 1], host_objs = [1 \<mapsto> ()], payloads = [3 \<mapsto> ()],
          device_objs = [1 \<mapsto> ()], host_brk = 3, device_brk = 1, trace = []\<rparr> :: unit heap) =
        Inr (\<lparr>managed_ptr.m_cpu = 1, managed_ptr.m_gpu = 1, managed_ptr.m_numReferences = 2,
              managed_ptr.m_copyArguments = 3, managed_ptr.m_copier = TupleCopier,
              managed_ptr.m_deleter = TupleDeleter\<rparr>, h') \<and>
      counters h' 2 = Some 2 \<and> trace h' = [CopierCalled 3]) \<and>
   Managed_registerArguments () Managed_managed_ptr (empty_heap :: unit heap) =
     (\<lparr>managed_ptr.m_cpu = nullptr, managed_ptr.m_gpu = nullptr,
       managed_ptr.m_numReferences = nullptr, managed_ptr.m_copyArguments = 1,
       managed_ptr.m_copier = TupleCopier, managed_ptr.m_deleter = TupleDeleter\<rparr>,
      \<lparr>counters = Map.empty, host_objs = Map.empty, payloads = [1 \<mapsto> ()],
       device_objs = Map.empty, host_brk = 1, device_brk = 0, trace = []\<rparr>) \<and>
   Managed_copy_ctor HostContext
     \<lparr>managed_ptr.m_cpu = nullptr, managed_ptr.m_gpu = nullptr,
      managed_ptr.m_numReferences = nullptr, managed_ptr.m_copyArguments = 1,
      managed_ptr.m_copier = TupleCopier, managed_ptr.m_deleter = TupleDeleter\<rparr>
     (\<lparr>counters = Map.empty, host_objs = Map.empty, payloads = [1 \<mapsto> ()],
       device_objs = Map.empty, host_brk = 1, device_brk = 0, trace = []\<rparr> :: unit heap) =
     Inr (\<lparr>managed_ptr.m_cpu = nullptr, managed_ptr.m_gpu = nullptr,
           managed_ptr.m_numReferences = nullptr, managed_ptr.m_copyArguments = 1,
           managed_ptr.m_copier = TupleCopier, managed_ptr.m_deleter = TupleDeleter\<rparr>,
          \<lparr>counters = Map.empty, host_objs = Map.empty, payloads = [1 \<mapsto> ()],
           device_objs = Map.empty, host_brk = 1, device_brk = 0, trace = []\<rparr>)"
proof -
  let ?raw = "\<lparr>managed_ptr.m_cpu = 1, managed_ptr.m_gpu = 1, managed_ptr.m_numReferences = 2,
      managed_ptr.m_copyArguments = nullptr, managed_ptr.m_copier = Indeterminate,
      managed_ptr.m_deleter = Indeterminate\<rparr>"
  let ?hraw = "\<lparr>counters = [2 \<mapsto> 1], host_objs = [1 \<mapsto> ()], payloads = Map.empty,
       device_objs = [1 \<mapsto> ()], host_brk = 2, device_brk = 1, trace = []\<rparr> :: unit heap"
  let ?p = "\<lparr>managed_ptr.m_cpu = 1, managed_ptr.m_gpu = 1, managed_ptr.m_numReferences = 2,
      managed_ptr.m_copyArguments = 3, managed_ptr.m_copier = TupleCopier,
      managed_ptr.m_deleter = TupleDeleter\<rparr>"
  let ?h = "\<lparr>counters = [2 \<mapsto> 1], host_objs = [1 \<mapsto> ()], payloads = [3 \<mapsto> ()],
       device_objs = [1 \<mapsto> ()], host_brk = 3, device_brk = 1, trace = []\<rparr> :: unit heap"
  let ?e = "\<lparr>managed_ptr.m_cpu = nullptr, managed_ptr.m_gpu = nullptr,
      managed_ptr.m_numReferences = nullptr, managed_ptr.m_copyArguments = 1,
      managed_ptr.m_copier = TupleCopier, managed_ptr.m_deleter = TupleDeleter\<rparr>"
  let ?he = "\<lparr>counters = Map.empty, host_objs = Map.empty, payloads = [1 \<mapsto> ()],
       device_objs = Map.empty, host_brk = 1, device_brk = 0, trace = []\<rparr> :: unit heap"
  have reg: "Managed_registerArguments () ?raw ?hraw = (?p, ?h)"
    by (simp add: Managed_registerArguments_def Let_def)
  have reg_empty: "Managed_registerArguments () Managed_managed_ptr (empty_heap :: unit heap) = (?e, ?he)"
    by (simp add: Managed_registerArguments_def Managed_managed_ptr_def empty_heap_def Let_def)
  have hyps: "managed_ptr.m_numReferences ?p \<noteq> nullptr"
    "counters ?h (managed_ptr.m_numReferences ?p) = Some 1"
    "payloads ?h (managed_ptr.m_copyArguments ?p) = Some ()"
    "Managed_decrementReferenceCount Managed_managed_ptr ?h = Inr ?h"
    "managed_ptr.m_numReferences ?e = nullptr"
    by (simp_all add: Managed_managed_ptr_def Managed_decrementReferenceCount_def)
  from C7_copy_callback_once_per_increment [OF reg, of ?h 1 "()" 1 1 Managed_managed_ptr ?h]
    C7_copy_callback_once_per_increment [OF reg_empty, of ?he 0 "()" 1 1 Managed_managed_ptr ?he]
    reg reg_empty hyps
  show ?thesis
    by simp
qed

section \<open>Non-null pointer, non-null counter\<close>

text \<open>
  Claim C8, as amended. A default-constructed or \<open>nullptr\<close>-constructed pointer of any
  strategy has a null counter and \<open>use_count() = 0\<close>. A pointer built by a raw-pointer
  constructor of any strategy, or by a factory of the Host or the Managed strategy (the
  factories that can be instantiated), has a non-null counter. Copy and converting construction,
  both assignments and the casts (which map the null pointer to the null pointer) hand
  back a pointer with a non-null counter whenever its stored pointer is non-null,
  provided the pointers they start from are such pointers. The aliasing constructor does
  so when the owner it is given has a non-null counter or the address it is given is
  null.
\<close>

theorem C8_nonnull_pointer_has_counter:
  fixes h :: "'a heap"
  shows
  "Host_nonnull_has_counter Host_managed_ptr \<and>
   host_ptr.m_numReferences Host_managed_ptr = nullptr \<and>
   Host_use_count Host_managed_ptr h = Inr 0 \<and>
   Host_nonnull_has_counter Host_managed_ptr_nullptr \<and>
   host_ptr.m_numReferences Host_managed_ptr_nullptr = nullptr \<and>
   Host_use_count Host_managed_ptr_nullptr h = Inr 0 \<and>
   Managed_nonnull_has_counter Managed_managed_ptr \<and>
   managed_ptr.m_numReferences Managed_managed_ptr = nullptr \<and>
   Managed_use_count Managed_managed_ptr h = Inr 0 \<and>
   Managed_nonnull_has_counter Managed_managed_ptr_nullptr \<and>
   managed_ptr.m_numReferences Managed_managed_ptr_nullptr = nullptr \<and>
   Managed_use_count Managed_managed_ptr_nullptr h = Inr 0 \<and>
   Device_nonnull_has_counter Device_managed_ptr \<and>
   device_ptr.m_numReferences Device_managed_ptr = nullptr \<and>
   Device_use_count Device_managed_ptr h = Inr 0 \<and>
   Device_nonnull_has_counter Device_managed_ptr_nullptr \<and>
   device_ptr.m_numReferences Device_managed_ptr_nullptr = nullptr \<and>
   Device_use_count Device_managed_ptr_nullptr h = Inr 0 \<and>
   Host_nonnull_has_counter (fst (Host_managed_ptr_raw hostPtr h)) \<and>
   Host_nonnull_has_counter (fst (Host_make_managed args h)) \<and>
   Host_nonnull_has_counter (fst (Host_make_managed_from_factory f args h)) \<and>
   Managed_nonnull_has_counter (fst (Managed_managed_ptr_raw hostPtr devicePtr h)) \<and>
   produces Managed_nonnull_has_counter (Managed_make_managed args h) \<and>
   produces Managed_nonnull_has_counter (Managed_make_managed_from_factory f g args h) \<and>
   Device_nonnull_has_counter (fst (Device_managed_ptr_raw devicePtr h)) \<and>
   (cast nullptr = nullptr \<and> Host_nonnull_has_counter ho \<and> Host_nonnull_has_counter ht \<longrightarrow>
      produces Host_nonnull_has_counter (Host_copy_ctor ho h) \<and>
      produces Host_nonnull_has_counter (Host_converting_ctor ho h) \<and>
      produces Host_nonnull_has_counter (Host_assign same_object ht ho h) \<and>
      produces Host_nonnull_has_counter (Host_converting_assign ht ho h) \<and>
      produces Host_nonnull_has_counter (Host_static_pointer_cast cast ho h) \<and>
      produces Host_nonnull_has_counter (Host_dynamic_pointer_cast cast ho h) \<and>
      produces Host_nonnull_has_counter (Host_const_pointer_cast cast ho h) \<and>
      produces Host_nonnull_has_counter (Host_reinterpret_pointer_cast cast ho h)) \<and>
   (cast nullptr = nullptr \<and> Managed_nonnull_has_counter mo \<and>
    Managed_nonnull_has_counter mt \<longrightarrow>
      produces Managed_nonnull_has_counter (Managed_copy_ctor ctx mo h) \<and>
      produces Managed_nonnull_has_counter (Managed_converting_ctor ctx mo h) \<and>
      produces Managed_nonnull_has_counter (Managed_assign ctx same_object mt mo h) \<and>
      produces Managed_nonnull_has_counter (Managed_converting_assign ctx mt mo h) \<and>
      produces Managed_nonnull_has_counter (Managed_static_pointer_cast cast mo h) \<and>
      produces Managed_nonnull_has_counter (Managed_const_pointer_cast cast mo h) \<and>
      produces Managed_nonnull_has_counter (Managed_reinterpret_pointer_cast cast mo h) \<and>
      Managed_nonnull_has_counter (fst (Managed_registerArguments args mo h))) \<and>
   (cast nullptr = nullptr \<and> Device_nonnull_has_counter dv \<and>
    Device_nonnull_has_counter dt \<longrightarrow>
      produces Device_nonnull_has_counter (Device_copy_ctor ctx dv h) \<and>
      produces Device_nonnull_has_counter (Device_converting_ctor ctx dv h) \<and>
      produces Device_nonnull_has_counter (Device_assign ctx same_object dt dv h) \<and>
      produces Device_nonnull_has_counter (Device_converting_assign ctx dt dv h) \<and>
      produces Device_nonnull_has_counter (Device_static_pointer_cast cast dv h) \<and>
      produces Device_nonnull_has_counter (Device_const_pointer_cast cast dv h) \<and>
      produces Device_nonnull_has_counter (Device_reinterpret_pointer_cast cast dv h)) \<and>
   (host_ptr.m_numReferences ho \<noteq> nullptr \<or> hostPtr = nullptr \<longrightarrow>
      produces Host_nonnull_has_counter (Host_aliasing_ctor ho hostPtr h)) \<and>
   (managed_ptr.m_numReferences mo \<noteq> nullptr \<or> (hostPtr = nullptr \<and> devicePtr = nullptr) \<longrightarrow>
      produces Managed_nonnull_has_counter (Managed_aliasing_ctor ctx mo hostPtr devicePtr h)) \<and>
   (device_ptr.m_numReferences dv \<noteq> nullptr \<or> devicePtr = nullptr \<longrightarrow>
      produces Device_nonnull_has_counter (Device_aliasing_ctor ctx dv devicePtr h))"
  using nonnull_counter_of_empty [of h] nonnull_counter_of_made [of hostPtr h args f devicePtr g]
    Host_nonnull_counter_preserved [of ho ht cast h same_object]
    Managed_nonnull_counter_preserved [of mo mt cast ctx h same_object args]
    Device_nonnull_counter_preserved [of dv dt cast ctx h same_object]
    nonnull_counter_of_aliasing [of ho hostPtr h mo devicePtr ctx dv]
  by blast

theorem C8_nonnull_pointer_has_counter_witness:
  "Host_nonnull_has_counter \<lparr>host_ptr.m_cpu = 1, host_ptr.m_numReferences = 2\<rparr> \<and>
   Host_nonnull_has_counter Host_managed_ptr \<and>
   Managed_nonnull_has_counter
     \<lparr>managed_ptr.m_cpu = 1, managed_ptr.m_gpu = 1, managed_ptr.m_numReferences = 2,
      managed_ptr.m_copyArguments = 3, managed_ptr.m_copier = TupleCopier,
      managed_ptr.m_deleter = TupleDeleter\<rparr> \<and>
   Managed_nonnull_has_counter Managed_managed_ptr \<and>
   Device_nonnull_has_counter \<lparr>device_ptr.m_gpu = 1, device_ptr.m_numReferences = 2\<rparr> \<and>
   Device_nonnull_has_counter Device_managed_ptr \<and>
   Host_copy_ctor \<lparr>host_ptr.m_cpu = 1, host_ptr.m_numReferences = 2\<rparr>
     (\<lparr>counters = [2 \<mapsto> 1], host_objs = [1 \<mapsto> ()], payloads = [3 \<mapsto> ()],
       device_objs = [1 \<mapsto> ()], host_brk = 3, device_brk = 1, trace = []\<rparr> :: unit heap) =
     Inr (\<lparr>host_ptr.m_cpu = 1, host_ptr.m_numReferences = 2\<rparr>,
       \<lparr>counters = [2 \<mapsto> 2], host_objs = [1 \<mapsto> ()], payloads = [3 \<mapsto> ()],
        device_objs = [1 \<mapsto> ()], host_brk = 3, device_brk = 1, trace = []\<rparr>) \<and>
   produces Host_nonnull_has_counter
     (Host_copy_ctor \<lparr>host_ptr.m_cpu = 1, host_ptr.m_numReferences = 2\<rparr>
       (\<lparr>counters = [2 \<mapsto> 1], host_objs = [1 \<mapsto> ()], payloads = [3 \<mapsto> ()],
         device_objs = [1 \<mapsto> ()], host_brk = 3, device_brk = 1, trace = []\<rparr> :: unit heap)) \<and>
   produces Host_nonnull_has_counter
     (Host_static_pointer_cast (\<lambda>a. a) \<lparr>host_ptr.m_cpu = 1, host_ptr.m_numReferences = 2\<rparr>
       (\<lparr>counters = [2 \<mapsto> 1], host_objs = [1 \<mapsto> ()], payloads = [3 \<mapsto> ()],
         device_objs = [1 \<mapsto> ()], host_brk = 3, device_brk = 1, trace = []\<rparr> :: unit heap)) \<and>
   produces Host_nonnull_has_counter
     (Host_aliasing_ctor \<lparr>host_ptr.m_cpu = 1, host_ptr.m_numReferences = 2\<rparr> 1
       (\<lparr>counters = [2 \<mapsto> 1], host_objs = [1 \<mapsto> ()], payloads = [3 \<mapsto> ()],
         device_objs = [1 \<mapsto> ()], host_brk = 3, device_brk = 1, trace = []\<rparr> :: unit heap)) \<and>
   produces Managed_nonnull_has_counter
     (Managed_static_pointer_cast (\<lambda>a. a)
       \<lparr>managed_ptr.m_cpu = 1, managed_ptr.m_gpu = 1, managed_ptr.m_numReferences = 2,
        managed_ptr.m_copyArguments = 3, managed_ptr.m_copier = TupleCopier,
        managed_ptr.m_deleter = TupleDeleter\<rparr>
       (\<lparr>counters = [2 \<mapsto> 1], host_objs = [1 \<mapsto> ()], payloads = [3 \<mapsto> ()],
         device_objs = [1 \<mapsto> ()], host_brk = 3, device_brk = 1, trace = []\<rparr> :: unit heap)) \<and>
   produces Managed_nonnull_has_counter
     (Managed_aliasing_ctor HostContext
       \<lparr>managed_ptr.m_cpu = 1, managed_ptr.m_gpu = 1, managed_ptr.m_numReferences = 2,
        managed_ptr.m_copyArguments = 3, managed_ptr.m_copier = TupleCopier,
        managed_ptr.m_deleter = TupleDeleter\<rparr> 1 1
       (\<lparr>counters = [2 \<mapsto> 1], host_objs = [1 \<mapsto> ()], payloads = [3 \<mapsto> ()],
         device_objs = [1 \<mapsto> ()], host_brk = 3, device_brk = 1, trace = []\<rparr> :: unit heap)) \<and>
   produces Device_nonnull_has_counter
     (Device_assign HostContext False Device_managed_ptr
       \<lparr>device_ptr.m_gpu = 1, device_ptr.m_numReferences = 2\<rparr>
       (\<lparr>counters = [2 \<mapsto> 1], host_objs = [1 \<mapsto> ()], payloads = [3 \<mapsto> ()],
         device_objs = [1 \<mapsto> ()], host_brk = 3, device_brk = 1, trace = []\<rparr> :: unit heap)) \<and>
   produces Device_nonnull_has_counter
     (Device_aliasing_ctor HostContext \<lparr>device_ptr.m_gpu = 1, device_ptr.m_numReferences = 2\<rparr> 1
       (\<lparr>counters = [2 \<mapsto> 1], host_objs = [1 \<mapsto> ()], payloads = [3 \<mapsto> ()],
         device_objs = [1 \<mapsto> ()], host_brk = 3, device_brk = 1, trace = []\<rparr> :: unit heap))"
proof -
  let ?ho = "\<lparr>host_ptr.m_cpu = 1, host_ptr.m_numReferences = 2\<rparr>"
  let ?mo = "\<lparr>managed_ptr.m_cpu = 1, managed_ptr.m_gpu = 1, managed_ptr.m_numReferences = 2,
      managed_ptr.m_copyArguments = 3, managed_ptr.m_copier = TupleCopier,
      managed_ptr.m_deleter = TupleDeleter\<rparr>"
  let ?dv = "\<lparr>device_ptr.m_gpu = 1, device_ptr.m_numReferences = 2\<rparr>"
  let ?h = "\<lparr>counters = [2 \<mapsto> 1], host_objs = [1 \<mapsto> ()], payloads = [3 \<mapsto> ()],
       device_objs = [1 \<mapsto> ()], host_brk = 3, device_brk = 1, trace = []\<rparr> :: unit heap"
  have cast: "(\<lambda>a::addr. a) nullptr = nullptr"
    by simp
  have inv: "Host_nonnull_has_counter ?ho" "Host_nonnull_has_counter Host_managed_ptr"
    "Managed_nonnull_has_counter ?mo" "Managed_nonnull_has_counter Managed_managed_ptr"
    "Device_nonnull_has_counter ?dv" "Device_nonnull_has_counter Device_managed_ptr"
    by (simp_all add: Host_nonnull_has_counter_def Managed_nonnull_has_counter_def
          Device_nonnull_has_counter_def Host_managed_ptr_def Managed_managed_ptr_def
          Device_managed_ptr_def)
  have owners: "host_ptr.m_numReferences ?ho \<noteq> nullptr"
    "managed_ptr.m_numReferences ?mo \<noteq> nullptr" "device_ptr.m_numReferences ?dv \<noteq> nullptr"
    by simp_all
  have copy: "Host_copy_ctor ?ho ?h =
     Inr (?ho, \<lparr>counters = [2 \<mapsto> 2], host_objs = [1 \<mapsto> ()], payloads = [3 \<mapsto> ()],
        device_objs = [1 \<mapsto> ()], host_brk = 3, device_brk = 1, trace = []\<rparr>)"
    by (simp add: Host_copy_ctor_def Host_incrementReferenceCount_def)
  from C8_nonnull_pointer_has_counter
         [of ?h 1 "()" "\<lambda>a h. (1, h)" 1 "\<lambda>a h. (1, h)" "\<lambda>a. a" ?ho Host_managed_ptr False
            ?mo Managed_managed_ptr HostContext ?dv Device_managed_ptr]
    cast inv owners copy
  show ?thesis
    by simp
qed

text \<open>
  Claim C8, as stated, covers every constructor. The aliasing constructor applied to an
  empty owner and the address of a live object yields a pointer whose stored address is
  non-null and whose counter is null.
\<close>

theorem C8_aliasing_counterexample:
  "Host_aliasing_ctor Host_managed_ptr 1
     (\<lparr>counters = Map.empty, host_objs = [1 \<mapsto> ()], payloads = Map.empty,
       device_objs = Map.empty, host_brk = 1, device_brk = 0, trace = []\<rparr> :: unit heap) =
     Inr (\<lparr>host_ptr.m_cpu = 1, host_ptr.m_numReferences = nullptr\<rparr>,
          \<lparr>counters = Map.empty, host_objs = [1 \<mapsto> ()], payloads = Map.empty,
           device_objs = Map.empty, host_brk = 1, device_brk = 0, trace = []\<rparr>) \<and>
   Host_get \<lparr>host_ptr.m_cpu = 1, host_ptr.m_numReferences = nullptr\<rparr> \<noteq> nullptr \<and>
   host_ptr.m_numReferences \<lparr>host_ptr.m_cpu = 1, host_ptr.m_numReferences = nullptr\<rparr> = nullptr \<and>
   \<not> Host_nonnull_has_counter \<lparr>host_ptr.m_cpu = 1, host_ptr.m_numReferences = nullptr\<rparr>"
  by (simp add: Host_aliasing_ctor_def Host_managed_ptr_def Host_incrementReferenceCount_def
        Host_get_def Host_nonnull_has_counter_def)

section \<open>Identity comparison\<close>

text \<open>
  Claim C9. \<open>operator==\<close> is true exactly when the two addresses returned by \<open>get()\<close> are
  equal, \<open>operator!=\<close> exactly when they differ, and a pointer equals \<open>nullptr\<close> exactly
  when its address is null. Two pointers built by two calls of \<open>make_managed<T>(x)\<close> with
  the same \<open>x\<close> hold equal objects at different addresses: they compare unequal, and
  neither equals \<open>nullptr\<close>.
\<close>

theorem C9_identity_comparison:
  fixes h :: "'a heap"
  shows
  "Host_operator_eq lhs rhs = (Host_get lhs = Host_get rhs) \<and>
   Host_operator_ne lhs rhs = (Host_get lhs \<noteq> Host_get rhs) \<and>
   Host_operator_eq_nullptr lhs = (Host_get lhs = nullptr) \<and>
   Host_nullptr_operator_eq rhs = (Host_get rhs = nullptr) \<and>
   Host_operator_ne_nullptr lhs = (Host_get lhs \<noteq> nullptr) \<and>
   Host_nullptr_operator_ne rhs = (Host_get rhs \<noteq> nullptr) \<and>
   Managed_operator_eq ctx mlhs mrhs = (Managed_get ctx mlhs = Managed_get ctx mrhs) \<and>
   Managed_operator_ne ctx mlhs mrhs = (Managed_get ctx mlhs \<noteq> Managed_get ctx mrhs) \<and>
   Managed_operator_eq_nullptr ctx mlhs = (Managed_get ctx mlhs = nullptr) \<and>
   Managed_nullptr_operator_eq ctx mrhs = (Managed_get ctx mrhs = nullptr) \<and>
   Managed_operator_ne_nullptr ctx mlhs = (Managed_get ctx mlhs \<noteq> nullptr) \<and>
   Managed_nullptr_operator_ne ctx mrhs = (Managed_get ctx mrhs \<noteq> nullptr) \<and>
   (\<exists>p h1 q h2. Host_make_managed x h = (p, h1) \<and> Host_make_managed x h1 = (q, h2) \<and>
      host_objs h2 (Host_get p) = Some x \<and> host_objs h2 (Host_get q) = Some x \<and>
      \<not> Host_operator_eq p q \<and> Host_operator_ne p q \<and>
      \<not> Host_operator_eq_nullptr p \<and> \<not> Host_operator_eq_nullptr q) \<and>
   (\<exists>p h1 q h2. Managed_make_managed x h = Inr (p, h1) \<and>
      Managed_make_managed x h1 = Inr (q, h2) \<and>
      host_objs h2 (Managed_get HostContext p) = Some x \<and>
      host_objs h2 (Managed_get HostContext q) = Some x \<and>
      device_objs h2 (Managed_get DeviceContext p) = Some x \<and>
      device_objs h2 (Managed_get DeviceContext q) = Some x \<and>
      \<not> Managed_operator_eq ctx p q \<and> Managed_operator_ne ctx p q \<and>
      \<not> Managed_operator_eq_nullptr ctx p \<and> \<not> Managed_operator_eq_nullptr ctx q)"
proof -
  have ops: "Host_operator_eq lhs rhs = (Host_get lhs = Host_get rhs) \<and>
   Host_operator_ne lhs rhs = (Host_get lhs \<noteq> Host_get rhs) \<and>
   Host_operator_eq_nullptr lhs = (Host_get lhs = nullptr) \<and>
   Host_nullptr_operator_eq rhs = (Host_get rhs = nullptr) \<and>
   Host_operator_ne_nullptr lhs = (Host_get lhs \<noteq> nullptr) \<and>
   Host_nullptr_operator_ne rhs = (Host_get rhs \<noteq> nullptr) \<and>
   Managed_operator_eq ctx mlhs mrhs = (Managed_get ctx mlhs = Managed_get ctx mrhs) \<and>
   Managed_operator_ne ctx mlhs mrhs = (Managed_get ctx mlhs \<noteq> Managed_get ctx mrhs) \<and>
   Managed_operator_eq_nullptr ctx mlhs = (Managed_get ctx mlhs = nullptr) \<and>
   Managed_nullptr_operator_eq ctx mrhs = (Managed_get ctx mrhs = nullptr) \<and>
   Managed_operator_ne_nullptr ctx mlhs = (Managed_get ctx mlhs \<noteq> nullptr) \<and>
   Managed_nullptr_operator_ne ctx mrhs = (Managed_get ctx mrhs \<noteq> nullptr)"
    by (auto simp: Host_operator_eq_def Host_operator_ne_def Host_operator_eq_nullptr_def
          Host_nullptr_operator_eq_def Host_operator_ne_nullptr_def Host_nullptr_operator_ne_def
          Managed_operator_eq_def Managed_operator_ne_def Managed_operator_eq_nullptr_def
          Managed_nullptr_operator_eq_def Managed_operator_ne_nullptr_def
          Managed_nullptr_operator_ne_def)
  have host: "\<exists>p h1 q h2. Host_make_managed x h = (p, h1) \<and> Host_make_managed x h1 = (q, h2) \<and>
      host_objs h2 (Host_get p) = Some x \<and> host_objs h2 (Host_get q) = Some x \<and>
      \<not> Host_operator_eq p q \<and> Host_operator_ne p q \<and>
      \<not> Host_operator_eq_nullptr p \<and> \<not> Host_operator_eq_nullptr q"
    by (simp add: Host_make_managed_def Host_managed_ptr_raw_def new_host_def new_counter_def
          Let_def Host_operator_eq_def Host_operator_ne_def Host_operator_eq_nullptr_def
          Host_get_def)
  have managed: "\<exists>p h1 q h2. Managed_make_managed x h = Inr (p, h1) \<and>
      Managed_make_managed x h1 = Inr (q, h2) \<and>
      host_objs h2 (Managed_get HostContext p) = Some x \<and>
      host_objs h2 (Managed_get HostContext q) = Some x \<and>
      device_objs h2 (Managed_get DeviceContext p) = Some x \<and>
      device_objs h2 (Managed_get DeviceContext q) = Some x \<and>
      \<not> Managed_operator_eq ctx p q \<and> Managed_operator_ne ctx p q \<and>
      \<not> Managed_operator_eq_nullptr ctx p \<and> \<not> Managed_operator_eq_nullptr ctx q"
    by (cases ctx)
      (simp_all add: Managed_make_managed_eq Managed_operator_eq_def Managed_operator_ne_def
          Managed_operator_eq_nullptr_def Managed_get_def)
  from ops host managed show ?thesis
    by blast
qed

section \<open>The conversion to a raw pointer\<close>

text \<open>
  Claim C10. In host context the conversion of a Managed pointer to \<open>T*\<close> is the call
  \<open>m_copier(m_copyArguments)\<close> followed by the return of the host address, for every
  pointer: there is no test before the call. With the callback installed the call is
  recorded in the trace and the host address is returned. On a default-constructed or
  \<open>nullptr\<close>-constructed pointer \<open>m_copier\<close> was never given a value, and the conversion
  is a call through that indeterminate function pointer. In device context the
  conversion returns the device address and calls nothing.
\<close>

theorem C10_conversion_calls_copier_unconditionally:
  fixes h :: "'a heap"
  shows
  "Managed_operator_T_ptr HostContext p h =
     bind_res (call_fn (managed_ptr.m_copier p) (managed_ptr.m_copyArguments p) h)
       (\<lambda>h'. Inr (managed_ptr.m_cpu p, h')) \<and>
   (managed_ptr.m_copier p = TupleCopier \<and> managed_ptr.m_copyArguments p \<noteq> nullptr \<and>
    payloads h (managed_ptr.m_copyArguments p) = Some v \<longrightarrow>
      Managed_operator_T_ptr HostContext p h =
        Inr (managed_ptr.m_cpu p,
             h\<lparr>trace := trace h @ [CopierCalled (managed_ptr.m_copyArguments p)]\<rparr>)) \<and>
   managed_ptr.m_copier Managed_managed_ptr = Indeterminate \<and>
   Managed_operator_T_ptr HostContext Managed_managed_ptr h = Inl IndeterminateValue \<and>
   managed_ptr.m_copier Managed_managed_ptr_nullptr = Indeterminate \<and>
   Managed_operator_T_ptr HostContext Managed_managed_ptr_nullptr h = Inl IndeterminateValue \<and>
   Managed_operator_T_ptr DeviceContext p h = Inr (managed_ptr.m_gpu p, h)"
  by (simp add: Managed_operator_T_ptr_def Managed_get_def Managed_managed_ptr_def
        Managed_managed_ptr_nullptr_def)

theorem C10_conversion_calls_copier_unconditionally_witness:
  "managed_ptr.m_copier
     \<lparr>managed_ptr.m_cpu = 1, managed_ptr.m_gpu = 1, managed_ptr.m_numReferences = 2,
      managed_ptr.m_copyArguments = 3, managed_ptr.m_copier = TupleCopier,
      managed_ptr.m_deleter = TupleDeleter\<rparr> = TupleCopier \<and>
   payloads (\<lparr>counters = [2 \<mapsto> 1], host_objs = [1 \<mapsto> ()], payloads = [3 \<mapsto> ()],
       device_objs = [1 \<mapsto> ()], host_brk = 3, device_brk = 1, trace = []\<rparr> :: unit heap) 3 =
     Some () \<and>
   Managed_operator_T_ptr HostContext
     \<lparr>managed_ptr.m_cpu = 1, managed_ptr.m_gpu = 1, managed_ptr.m_numReferences = 2,
      managed_ptr.m_copyArguments = 3, managed_ptr.m_copier = TupleCopier,
      managed_ptr.m_deleter = TupleDeleter\<rparr>
     (\<lparr>counters = [2 \<mapsto> 1], host_objs = [1 \<mapsto> ()], payloads = [3 \<mapsto> ()],
       device_objs = [1 \<mapsto> ()], host_brk = 3, device_brk = 1, trace = []\<rparr> :: unit heap) =
     Inr (1, \<lparr>counters = [2 \<mapsto> 1], host_objs = [1 \<mapsto> ()], payloads = [3 \<mapsto> ()],
       device_objs = [1 \<mapsto> ()], host_brk = 3, device_brk = 1,
       trace = [CopierCalled 3]\<rparr>) \<and>
   Managed_operator_T_ptr HostContext Managed_managed_ptr
     (\<lparr>counters = [2 \<mapsto> 1], host_objs = [1 \<mapsto> ()], payloads = [3 \<mapsto> ()],
       device_objs = [1 \<mapsto> ()], host_brk = 3, device_brk = 1, trace = []\<rparr> :: unit heap) =
     Inl IndeterminateValue"
proof -
  let ?p = "\<lparr>managed_ptr.m_cpu = 1, managed_ptr.m_gpu = 1, managed_ptr.m_numReferences = 2,
      managed_ptr.m_copyArguments = 3, managed_ptr.m_copier = TupleCopier,
      managed_ptr.m_deleter = TupleDeleter\<rparr>"
  let ?h = "\<lparr>counters = [2 \<mapsto> 1], host_objs = [1 \<mapsto> ()], payloads = [3 \<mapsto> ()],
       device_objs = [1 \<mapsto> ()], host_brk = 3, device_brk = 1, trace = []\<rparr> :: unit heap"
  have hyps: "managed_ptr.m_copier ?p = TupleCopier" "managed_ptr.m_copyArguments ?p \<noteq> nullptr"
    "payloads ?h (managed_ptr.m_copyArguments ?p) = Some ()"
    by simp_all
  from C10_conversion_calls_copier_unconditionally [of ?p ?h "()"] hyps
  show ?thesis
    by simp
qed

end
